theory Spec2Isabelle
  imports Main "HOL-Library.Word" "HOL-Library.Sublist"
begin

section \<open>Data model\<close>

subsection \<open>Errors\<close>

text \<open>
  A Go \<open>error\<close> is a value. An error produced by a library (the RPC client, the semver
  parser, a handler) is known by its \<open>Error()\<close> text only: \<open>Raw\<close>. An error built
  with \<open>errors.Errorf(errors.X, args...)\<close> keeps the message identifier \<open>X\<close> and its
  arguments; the message templates of \<open>internal/errors\<close> are declared outside the
  modelled file, so the rendering of such an error is a parameter (\<open>ErrorText\<close>).
\<close>

datatype RequestType =
    RequestTypeCreateBlockListener
  | RequestTypeExecQuery
  | RequestTypeGetBlockInfoByHash
  | RequestTypeGetBlockInfoByNumber
  | RequestTypeGetGasPrice
  | RequestTypeGetNewBlockHashes
  | RequestTypeGetNextNonce
  | RequestTypeGetReceipt
  | RequestTypePrepareTransaction
  | RequestTypeSendTransaction
  | RequestTypeOther string

datatype ErrorReason =
    ErrorReasonInvalidInputs
  | ErrorReasonNotFound
  | ErrorReasonOther string

datatype error =
    Raw string
  | RPCCallReturnedError string error
  | EventStreamsSubscribeBadBlock
  | EventStreamsSubscribeNoEvent
  | EventStreamsNoID
  | FFCBadVersion string error
  | FFCUnsupportedVersion string
  | FFCMissingRequestID
  | FFCUnsupportedRequestType RequestType

fun ErrorText :: "(error \<Rightarrow> string) \<Rightarrow> error \<Rightarrow> string" where
  "ErrorText render (Raw m) = m"
| "ErrorText render e = render e"

text \<open>
  A function that can panic returns an \<open>outcome\<close>: \<open>Return\<close> with what the Go function
  returns (the updated state included), or \<open>Panic\<close>, after which nothing is returned.
\<close>

datatype 'a outcome = Return 'a | Panic string

subsection \<open>Contexts\<close>

text \<open>
  A \<open>context.Context\<close> is either the background context or one derived from a parent
  with \<open>context.WithTimeout(parent, d)\<close>; \<open>d\<close> is kept in seconds. The budget of a
  context is the smallest timeout on the chain to the background context.
\<close>

datatype Context = Background | WithTimeout Context nat

fun budget :: "Context \<Rightarrow> nat option" where
  "budget Background = None"
| "budget (WithTimeout parent d) =
     (case budget parent of None \<Rightarrow> Some d | Some p \<Rightarrow> Some (min p d))"

subsection \<open>Filters, subscriptions, log entries\<close>

type_synonym Address = string
type_synonym Hash = string
type_synonym HexBigInt = int
type_synonym ABIElementMarshaling = string

record persistedFilter =
  Addresses :: "Address list"
  Topics :: "Hash list list"

text \<open>\<open>ethFilter\<close> embeds \<open>persistedFilter\<close> and adds the block range.\<close>

record ethFilter = persistedFilter +
  filter_FromBlock :: HexBigInt
  filter_ToBlock :: string

record SubscriptionInfo =
  TimeSorted :: string
  ID :: string
  Path :: string
  Summary :: string
  Name :: string
  Stream :: string
  Filter :: persistedFilter
  Event :: "ABIElementMarshaling option"
  FromBlock :: string

definition FromBlockLatest :: string where
  "FromBlockLatest = ''latest''"

text \<open>
  The ABI event, the log entry and the block header are declared outside the modelled
  file; the records hold the fields the modelled functions read or write.
\<close>

record ABIEvent =
  event_Name :: string
  event_ID :: Hash

record logEntry =
  BlockNumber :: HexBigInt
  Timestamp :: "64 word"

record ethHeader =
  Time :: "64 word"

subsection \<open>The block timestamp cache\<close>

text \<open>
  Modelled from the spec: the stream's \<open>blockTimestampCache\<close>, whose type is declared
  outside the modelled file. The spec describes it as a bounded least-recently-used
  mapping from the block number (as a string) to the block timestamp. The entries are
  kept most recently used first; \<open>Get\<close> on a present key moves it to the front, \<open>Add\<close>
  puts the key at the front and drops the entries beyond the capacity.
\<close>

record lru =
  capacity :: nat
  entries :: "(string \<times> 64 word) list"

definition lru_Get :: "lru \<Rightarrow> string \<Rightarrow> 64 word option \<times> lru" where
  "lru_Get c k =
     (case map_of (entries c) k of
        None \<Rightarrow> (None, c)
      | Some v \<Rightarrow> (Some v, c\<lparr>entries := (k, v) # filter (\<lambda>p. fst p \<noteq> k) (entries c)\<rparr>))"

definition lru_Add :: "lru \<Rightarrow> string \<Rightarrow> 64 word \<Rightarrow> lru" where
  "lru_Add c k v =
     c\<lparr>entries := take (capacity c) ((k, v) # filter (\<lambda>p. fst p \<noteq> k) (entries c))\<rparr>"

definition lru_Contains :: "lru \<Rightarrow> string \<Rightarrow> bool" where
  "lru_Contains c k = (map_of (entries c) k \<noteq> None)"

subsection \<open>Streams and the log processor\<close>

record StreamInfo =
  Timestamps :: bool

record eventStream =
  spec :: StreamInfo
  blockTimestampCache :: lru

text \<open>
  Modelled from the spec: the \<open>logProcessor\<close> type with \<open>newLogProcessor\<close>,
  \<open>initBlockHWM\<close> and \<open>getBlockHWM\<close>, declared outside the modelled file. The spec
  makes the log processor the owner of the block high-water-mark: \<open>initBlockHWM\<close>
  seeds it and \<open>getBlockHWM\<close> reads it. A new log processor holds the zero value.
\<close>

record logProcessor =
  subID :: string
  event :: "ABIEvent option"
  stream :: eventStream
  lp_blockHWM :: int

definition newLogProcessor :: "string \<Rightarrow> ABIEvent option \<Rightarrow> eventStream \<Rightarrow> logProcessor" where
  "newLogProcessor sid ev st = \<lparr>subID = sid, event = ev, stream = st, lp_blockHWM = 0\<rparr>"

definition initBlockHWM :: "logProcessor \<Rightarrow> int \<Rightarrow> logProcessor" where
  "initBlockHWM p i = p\<lparr>lp_blockHWM := i\<rparr>"

definition getBlockHWM :: "logProcessor \<Rightarrow> int" where
  "getBlockHWM p = lp_blockHWM p"

text \<open>
  The runtime subscription. The RPC client it holds is the environment of the model and
  is passed to each method next to the subscription.
\<close>

record subscription =
  info :: SubscriptionInfo
  lp :: logProcessor
  logName :: string
  filterID :: HexBigInt
  filteredOnce :: bool
  filterStale :: bool
  deleting :: bool
  resetRequested :: bool

subsection \<open>The trace of interactions\<close>

text \<open>
  Everything a method does to the outside is appended to a trace, oldest first: the RPC
  calls it issues, the lines it logs (format string and arguments, not rendered) and
  the log entries it hands to \<open>processLogEntry\<close>, each with the log name, the index
  and the error or nil that came back.
\<close>

datatype go_value =
    VString string
  | VBool bool
  | VInt int
  | VNat nat
  | VError "error option"
  | VFilter ethFilter
  | VPersistedFilter persistedFilter
  | VRequestType RequestType
  | VReason ErrorReason

record rpc_call =
  call_ctx :: Context
  call_method :: string
  call_params :: "go_value list"

datatype log_level = Trace | Debug | Info | Error

datatype event =
    RPC rpc_call
  | Log log_level string "go_value list"
  | ProcessLogEntry string logEntry nat "error option"

text \<open>
  The RPC client: \<open>CallContext(ctx, &result, method, params...)\<close> answers with an error
  (\<open>Inl\<close>, its text) or with a value of the type of \<open>result\<close> (\<open>Inr\<close>); there is one
  oracle for each result type the modelled file uses. The answer may depend on
  everything that happened before the call. A call that fails leaves \<open>result\<close> as it
  was.
\<close>

record rpc_client =
  call_HexBigInt :: "event list \<Rightarrow> rpc_call \<Rightarrow> string + HexBigInt"
  call_logs :: "event list \<Rightarrow> rpc_call \<Rightarrow> string + logEntry list"
  call_bool :: "event list \<Rightarrow> rpc_call \<Rightarrow> string + bool"
  call_Header :: "event list \<Rightarrow> rpc_call \<Rightarrow> string + ethHeader"

definition is_RPC :: "event \<Rightarrow> bool" where
  "is_RPC e = (case e of RPC _ \<Rightarrow> True | _ \<Rightarrow> False)"

definition rpc_calls :: "event list \<Rightarrow> rpc_call list" where
  "rpc_calls t = concat (map (\<lambda>e. case e of RPC c \<Rightarrow> [c] | _ \<Rightarrow> []) t)"

definition uninstall_calls :: "event list \<Rightarrow> rpc_call list" where
  "uninstall_calls t = filter (\<lambda>c. call_method c = ''eth_uninstallFilter'') (rpc_calls t)"

section \<open>The subscription's filter lifecycle\<close>

definition markFilterStale ::
  "rpc_client \<Rightarrow> Context \<Rightarrow> bool \<Rightarrow> event list \<Rightarrow> subscription \<Rightarrow> event list \<times> subscription" where
  "markFilterStale rpc ctx newFilterStale t s =
     (let t1 = t @ [Log Debug ''%s: Marking filter stale=%t, current sub filter stale=%t''
                      [VString (logName s), VBool newFilterStale, VBool (filterStale s)]];
          t2 = (if newFilterStale \<and> \<not> filterStale s then
                  (let ctx1 = WithTimeout ctx 30;
                       c = \<lparr>call_ctx = ctx1, call_method = ''eth_uninstallFilter'',
                            call_params = [VInt (filterID s)]\<rparr>;
                       (retval, err) = (case call_bool rpc t1 c of
                                          Inl m \<Rightarrow> (False, Some (Raw m))
                                        | Inr b \<Rightarrow> (b, None))
                   in t1 @ [RPC c,
                            Log Info ''%s: Uninstalled filter. ok=%t (%s)''
                              [VString (logName s), VBool retval, VError err]])
                else t1)
      in (t2, s\<lparr>filterStale := newFilterStale\<rparr>))"

definition blockHWM :: "subscription \<Rightarrow> int" where
  "blockHWM s = getBlockHWM (lp s)"

text \<open>
  \<open>restartFilter\<close>: \<open>since\<close> is a pointer, \<open>None\<close> is the nil pointer, on which
  \<open>Set\<close> panics. The result is the returned error, the trace and the subscription.
\<close>

definition restartFilter ::
  "rpc_client \<Rightarrow> Context \<Rightarrow> int option \<Rightarrow> event list \<Rightarrow> subscription
     \<Rightarrow> (error option \<times> event list \<times> subscription) outcome" where
  "restartFilter rpc ctx since t s =
     (case since of
        None \<Rightarrow> Panic ''nil pointer dereference''
      | Some n \<Rightarrow>
          (let f = \<lparr>Addresses = Addresses (Filter (info s)), Topics = Topics (Filter (info s)),
                    filter_FromBlock = n, filter_ToBlock = ''latest''\<rparr>;
               ctx1 = WithTimeout ctx 30;
               c = \<lparr>call_ctx = ctx1, call_method = ''eth_newFilter'',
                    call_params = [VFilter f]\<rparr>
           in case call_HexBigInt rpc t c of
                Inl m \<Rightarrow>
                  Return (Some (RPCCallReturnedError ''eth_newFilter'' (Raw m)), t @ [RPC c], s)
              | Inr fid \<Rightarrow>
                  (let s1 = s\<lparr>filterID := fid, filteredOnce := False\<rparr>;
                       (t2, s2) = markFilterStale rpc ctx1 False (t @ [RPC c]) s1
                   in Return (None,
                        t2 @ [Log Info ''%s: created filter from block %s: %s - %+v''
                                [VString (logName s2), VInt n, VInt (filterID s2),
                                 VPersistedFilter (Filter (info s2))]],
                        s2))))"

section \<open>Seeding the block height\<close>

text \<open>
  \<open>big.Int.SetString(s, 10)\<close> of the Go library: an optional sign, then one or more
  decimal digits, and nothing else; \<open>None\<close> is \<open>ok = false\<close>.
\<close>

definition isDigit :: "char \<Rightarrow> bool" where
  "isDigit c = (c \<in> set ''0123456789'')"

definition digitsValue :: "string \<Rightarrow> nat" where
  "digitsValue ds = foldl (\<lambda>acc c. acc * 10 + (of_char c - 48)) 0 ds"

definition bigInt_SetString10 :: "string \<Rightarrow> int option" where
  "bigInt_SetString10 s =
     (let (neg, ds) = (case s of
                         [] \<Rightarrow> (False, [])
                       | c # r \<Rightarrow> if c = CHR ''-'' then (True, r)
                                  else if c = CHR ''+'' then (False, r)
                                  else (False, s))
      in if ds = [] \<or> \<not> list_all isDigit ds then None
         else Some (if neg then - int (digitsValue ds) else int (digitsValue ds)))"

definition setInitialBlockHeight ::
  "rpc_client \<Rightarrow> Context \<Rightarrow> event list \<Rightarrow> subscription
     \<Rightarrow> (error + int) \<times> event list \<times> subscription" where
  "setInitialBlockHeight rpc ctx t s =
     (if FromBlock (info s) \<noteq> [] \<and> FromBlock (info s) \<noteq> FromBlockLatest then
        (case bigInt_SetString10 (FromBlock (info s)) of
           None \<Rightarrow> (Inl EventStreamsSubscribeBadBlock, t, s)
         | Some i \<Rightarrow> (Inr i, t, s))
      else
        (let ctx1 = WithTimeout ctx 30;
             c = \<lparr>call_ctx = ctx1, call_method = ''eth_blockNumber'', call_params = []\<rparr>
         in case call_HexBigInt rpc t c of
              Inl m \<Rightarrow>
                (Inl (RPCCallReturnedError ''eth_blockNumber'' (Raw m)), t @ [RPC c], s)
            | Inr i \<Rightarrow>
                (Inr i,
                 t @ [RPC c,
                      Log Info ''%s: initial block height for event stream (latest block): %s''
                        [VString (logName s), VInt i]],
                 s\<lparr>lp := initBlockHWM (lp s) i\<rparr>)))"


section \<open>Polling\<close>

definition cache_of :: "subscription \<Rightarrow> lru" where
  "cache_of s = blockTimestampCache (stream (lp s))"

definition with_cache :: "subscription \<Rightarrow> lru \<Rightarrow> subscription" where
  "with_cache s c = s\<lparr>lp := (lp s)\<lparr>stream := (stream (lp s))\<lparr>blockTimestampCache := c\<rparr>\<rparr>\<rparr>"

text \<open>
  \<open>getEventTimestamp\<close> writes the timestamp into the log entry it is given, so the
  model returns the entry too. \<open>str\<close> is the \<open>String()\<close> method of the block number,
  declared outside the modelled file.
\<close>

definition getEventTimestamp ::
  "rpc_client \<Rightarrow> (HexBigInt \<Rightarrow> string) \<Rightarrow> Context \<Rightarrow> logEntry \<Rightarrow> event list \<Rightarrow> subscription
     \<Rightarrow> logEntry \<times> event list \<times> subscription" where
  "getEventTimestamp rpc str ctx l t s =
     (let ctx1 = WithTimeout ctx 30;
          blockNumber = str (BlockNumber l);
          (found, cache1) = lru_Get (cache_of s) blockNumber
      in case found of
           Some ts \<Rightarrow> (l\<lparr>Timestamp := ts\<rparr>, t, with_cache s cache1)
         | None \<Rightarrow>
             (let rpcMethod = ''eth_getBlockByNumber'';
                  c = \<lparr>call_ctx = ctx1, call_method = rpcMethod,
                       call_params = [VString blockNumber, VBool False]\<rparr>
              in case call_Header rpc t c of
                   Inl m \<Rightarrow>
                     (l\<lparr>Timestamp := 0\<rparr>,
                      t @ [RPC c,
                           Log Error ''Unable to retrieve block[%s] timestamp: %s''
                             [VString blockNumber, VError (Some (Raw m))]],
                      with_cache s cache1)
                 | Inr hdr \<Rightarrow>
                     (l\<lparr>Timestamp := Time hdr\<rparr>,
                      t @ [RPC c],
                      with_cache s (lru_Add cache1 blockNumber (Time hdr)))))"

text \<open>\<open>strings.Contains\<close> of the Go library.\<close>

fun strings_Contains :: "string \<Rightarrow> string \<Rightarrow> bool" where
  "strings_Contains [] sub = (sub = [])"
| "strings_Contains (c # cs) sub = (prefix sub (c # cs) \<or> strings_Contains cs sub)"

text \<open>
  The loop over the polled log entries. \<open>ple\<close> is \<open>logProcessor.processLogEntry\<close>,
  declared outside the modelled file: it returns an error or nil and may change the log
  processor; each entry handed to it is recorded in the trace.
\<close>

type_synonym processLogEntry_fn =
  "logProcessor \<Rightarrow> string \<Rightarrow> logEntry \<Rightarrow> nat \<Rightarrow> error option \<times> logProcessor"

fun processLogs ::
  "rpc_client \<Rightarrow> (HexBigInt \<Rightarrow> string) \<Rightarrow> processLogEntry_fn \<Rightarrow> nat \<Rightarrow> logEntry list
     \<Rightarrow> event list \<Rightarrow> subscription \<Rightarrow> event list \<times> subscription" where
  "processLogs rpc str ple idx [] t s = (t, s)"
| "processLogs rpc str ple idx (l # ls) t s =
     (let (l1, t1, s1) = (if Timestamps (spec (stream (lp s)))
                          then getEventTimestamp rpc str Background l t s
                          else (l, t, s));
          (err, lp2) = ple (lp s1) (logName s1) l1 idx;
          t2 = t1 @ [ProcessLogEntry (logName s1) l1 idx err];
          t3 = (case err of
                  Some e \<Rightarrow> t2 @ [Log Error ''Failed to process event: %s'' [VError (Some e)]]
                | None \<Rightarrow> t2)
      in processLogs rpc str ple (Suc idx) ls t3 (s1\<lparr>lp := lp2\<rparr>))"

definition processNewEvents ::
  "rpc_client \<Rightarrow> (HexBigInt \<Rightarrow> string) \<Rightarrow> processLogEntry_fn \<Rightarrow> Context \<Rightarrow> event list
     \<Rightarrow> subscription \<Rightarrow> error option \<times> event list \<times> subscription" where
  "processNewEvents rpc str ple ctx t s =
     (let ctx1 = WithTimeout ctx 30;
          rpcMethod = (if filteredOnce s then ''eth_getFilterChanges'' else ''eth_getFilterLogs'');
          c = \<lparr>call_ctx = ctx1, call_method = rpcMethod, call_params = [VInt (filterID s)]\<rparr>
      in case call_logs rpc t c of
           Inl m \<Rightarrow>
             (let (t2, s2) = (if strings_Contains m ''filter not found''
                              then markFilterStale rpc ctx1 True (t @ [RPC c]) s
                              else (t @ [RPC c], s))
              in (Some (Raw m), t2, s2))
         | Inr logs \<Rightarrow>
             (let t1 = t @ [RPC c];
                  t2 = (if length logs > 0
                        then t1 @ [Log Debug ''%s: received %d events (%s)''
                                     [VString (logName s), VNat (length logs), VString rpcMethod]]
                        else t1);
                  (t3, s3) = processLogs rpc str ple 0 logs t2 s
              in (None, t3, s3\<lparr>filteredOnce := True\<rparr>)))"



section \<open>Creating and restoring a subscription\<close>





section \<open>The legacy key-value iterator\<close>

text \<open>
  \<open>levelDBKeyIterator\<close> wraps an iterator of the storage library. The library is not
  part of the modelled file: its iterator is a state \<open>'i\<close> with the four operations the
  wrapper can call on it.
\<close>

record 'i iterator_ops =
  it_Key :: "'i \<Rightarrow> string"
  it_Value :: "'i \<Rightarrow> string"
  it_Next :: "'i \<Rightarrow> bool \<times> 'i"
  it_Release :: "'i \<Rightarrow> 'i"

datatype 'i levelDBKeyIterator = LevelDBKeyIterator (underlying: 'i)

definition levelDBKeyIterator_Key :: "'i iterator_ops \<Rightarrow> 'i levelDBKeyIterator \<Rightarrow> string" where
  "levelDBKeyIterator_Key ops k = it_Key ops (underlying k)"

definition levelDBKeyIterator_Value :: "'i iterator_ops \<Rightarrow> 'i levelDBKeyIterator \<Rightarrow> string" where
  "levelDBKeyIterator_Value ops k = it_Value ops (underlying k)"

definition levelDBKeyIterator_Next ::
  "'i iterator_ops \<Rightarrow> 'i levelDBKeyIterator \<Rightarrow> bool \<times> 'i levelDBKeyIterator" where
  "levelDBKeyIterator_Next ops k =
     (let (more, i1) = it_Next ops (underlying k) in (more, LevelDBKeyIterator i1))"

definition levelDBKeyIterator_Release ::
  "'i iterator_ops \<Rightarrow> 'i levelDBKeyIterator \<Rightarrow> 'i levelDBKeyIterator" where
  "levelDBKeyIterator_Release ops k =
     (let (more, i1) = it_Next ops (underlying k) in LevelDBKeyIterator i1)"

text \<open>
  An example of an underlying iterator, for running the wrapper: a cursor over a list of
  pairs. Position 0 is before the first pair; \<open>Next\<close> moves to the next pair while
  there is one; \<open>Release\<close> marks the cursor released, after which \<open>Next\<close> does nothing.
\<close>

record cursor =
  items :: "(string \<times> string) list"
  pos :: nat
  released :: bool

definition cursor_ops :: "cursor iterator_ops" where
  "cursor_ops =
     \<lparr>it_Key = (\<lambda>c. if 0 < pos c \<and> pos c \<le> length (items c)
                      then fst (items c ! (pos c - 1)) else []),
      it_Value = (\<lambda>c. if 0 < pos c \<and> pos c \<le> length (items c)
                        then snd (items c ! (pos c - 1)) else []),
      it_Next = (\<lambda>c. if released c then (False, c)
                       else if pos c < length (items c) then (True, c\<lparr>pos := pos c + 1\<rparr>)
                       else (False, c\<lparr>pos := length (items c) + 1\<rparr>)),
      it_Release = (\<lambda>c. c\<lparr>released := True\<rparr>)\<rparr>"

section \<open>The FFCAPI server\<close>

text \<open>
  The semantic-version library is not part of the modelled file: its parser of versions,
  its parser of constraints and its check are parameters, over the library's types of
  versions \<open>'v\<close> and of constraints \<open>'c\<close>. Each parser answers with an error text
  (\<open>Inl\<close>) or a value.
\<close>

record ('v, 'c) semver =
  NewVersion :: "string \<Rightarrow> string + 'v"
  NewConstraint :: "string \<Rightarrow> string + 'c"
  Check :: "'c \<Rightarrow> 'v \<Rightarrow> bool"

definition supportedAPIVersions :: string where
  "supportedAPIVersions = ''1.0.x''"

record Header =
  RequestID :: "string option"
  Version :: string
  RequestType :: RequestType

datatype resBody = NilBody | Result string | ErrorResponse string ErrorReason

text \<open>
  A handler gets the context and the payload and returns a body, a reason and an error or
  nil; what it does to the outside goes to the trace.
\<close>

type_synonym ffcHandler =
  "Context \<Rightarrow> string \<Rightarrow> event list \<Rightarrow> (resBody \<times> ErrorReason \<times> error option) \<times> event list"

text \<open>
  The server. The field \<open>rpc\<close> is the environment, as for a subscription; the float
  \<open>gasEstimationFactor\<close> is read by the handlers only and is left out.
\<close>

record 'c ffcServer =
  versionCheck :: "'c option"
  handlerMap :: "RequestType \<rightharpoonup> ffcHandler"

text \<open>The ten handler methods of the server, declared outside the modelled file.\<close>

record ffcMethods =
  createBlockListener :: ffcHandler
  execQuery :: ffcHandler
  getBlockInfoByHash :: ffcHandler
  getBlockInfoByNumber :: ffcHandler
  getGasPrice :: ffcHandler
  getNewBlockHashes :: ffcHandler
  getNextNonce :: ffcHandler
  getReceipt :: ffcHandler
  prepareTransaction :: ffcHandler
  sendTransaction :: ffcHandler

text \<open>
  \<open>NewFFCServer\<close> drops the error of \<open>semver.NewConstraint\<close>: when the constraint does
  not parse, \<open>versionCheck\<close> is the nil pointer (\<open>None\<close>).
\<close>

definition NewFFCServer :: "('v, 'c) semver \<Rightarrow> ffcMethods \<Rightarrow> 'c ffcServer" where
  "NewFFCServer lib m =
     \<lparr>versionCheck = (case NewConstraint lib supportedAPIVersions of
                        Inl _ \<Rightarrow> None | Inr c \<Rightarrow> Some c),
      handlerMap = [RequestTypeCreateBlockListener \<mapsto> createBlockListener m,
                    RequestTypeExecQuery \<mapsto> execQuery m,
                    RequestTypeGetBlockInfoByHash \<mapsto> getBlockInfoByHash m,
                    RequestTypeGetBlockInfoByNumber \<mapsto> getBlockInfoByNumber m,
                    RequestTypeGetGasPrice \<mapsto> getGasPrice m,
                    RequestTypeGetNewBlockHashes \<mapsto> getNewBlockHashes m,
                    RequestTypeGetNextNonce \<mapsto> getNextNonce m,
                    RequestTypeGetReceipt \<mapsto> getReceipt m,
                    RequestTypePrepareTransaction \<mapsto> prepareTransaction m,
                    RequestTypeSendTransaction \<mapsto> sendTransaction m]\<rparr>"

definition validateHeader ::
  "('v, 'c) semver \<Rightarrow> 'c ffcServer \<Rightarrow> Header \<Rightarrow> (error + ffcHandler) outcome" where
  "validateHeader lib s header =
     (case NewVersion lib (Version header) of
        Inl m \<Rightarrow> Return (Inl (FFCBadVersion (Version header) (Raw m)))
      | Inr v \<Rightarrow>
          (case versionCheck s of
             None \<Rightarrow> Panic ''nil pointer dereference''
           | Some c \<Rightarrow>
               if \<not> Check lib c v then Return (Inl (FFCUnsupportedVersion (Version header)))
               else if RequestID header = None then Return (Inl FFCMissingRequestID)
               else (case handlerMap s (RequestType header) of
                       None \<Rightarrow> Return (Inl (FFCUnsupportedRequestType (RequestType header)))
                     | Some handler \<Rightarrow> Return (Inr handler))))"

definition mapReasonStatus :: "ErrorReason \<Rightarrow> nat" where
  "mapReasonStatus reason =
     (case reason of
        ErrorReasonNotFound \<Rightarrow> 404
      | ErrorReasonInvalidInputs \<Rightarrow> 400
      | _ \<Rightarrow> 500)"

text \<open>\<open>strconv.FormatInt(n, 10)\<close> of the Go library, for a length.\<close>

fun FormatInt :: "nat \<Rightarrow> string" where
  "FormatInt n =
     (if n < 10 then [char_of (48 + n)]
      else FormatInt (n div 10) @ [char_of (48 + n mod 10)])"

declare FormatInt.simps [simp del]

record response =
  status :: nat
  headers :: "(string \<times> string) list"
  body :: string

text \<open>
  \<open>ServeFFCAPI\<close>. The JSON coding is not part of the modelled file: \<open>unmarshal\<close> reads
  the header out of the payload (whatever it leaves there when it fails, the error being
  dropped), \<open>marshal\<close> writes a body, \<open>render\<close> gives the text of an error of
  \<open>internal/errors\<close>.
\<close>

definition ServeFFCAPI ::
  "('v, 'c) semver \<Rightarrow> (string \<Rightarrow> Header) \<Rightarrow> (resBody \<Rightarrow> string) \<Rightarrow> (error \<Rightarrow> string)
     \<Rightarrow> 'c ffcServer \<Rightarrow> Context \<Rightarrow> string \<Rightarrow> event list \<Rightarrow> (response \<times> event list) outcome" where
  "ServeFFCAPI lib unmarshal marshal render s ctx payload t =
     (let resBase = unmarshal payload
      in case validateHeader lib s resBase of
           Panic p \<Rightarrow> Panic p
         | Return validated \<Rightarrow>
             (let (resBody0, reason, err, t1) =
                    (case validated of
                       Inl e \<Rightarrow> (NilBody, ErrorReasonInvalidInputs, Some e, t)
                     | Inr handler \<Rightarrow>
                         (let t0 = t @ [Log Trace ''--> %s %s''
                                          [VRequestType (RequestType resBase), VString payload]];
                              ((res, reason1, err1), th) = handler ctx payload t0
                          in (res, reason1, err1,
                              th @ [Log Trace ''<-- %s %s %v''
                                      [VRequestType (RequestType resBase), VReason reason1,
                                       VError err1]])));
                  (resBody1, status1, t2) =
                    (case err of
                       None \<Rightarrow> (resBody0, 200, t1)
                     | Some e \<Rightarrow>
                         (ErrorResponse (ErrorText render e) reason, mapReasonStatus reason,
                          t1 @ [Log Error ''Request failed: %s'' [VError (Some e)]]));
                  resBytes = marshal resBody1
              in Return (\<lparr>status = status1,
                          headers = [(''Content-Type'', ''application/json''),
                                     (''Content-Length'', FormatInt (length resBytes))],
                          body = resBytes\<rparr>,
                         t2)))"

section \<open>Reading the trace\<close>

definition new_events :: "event list \<Rightarrow> event list \<Rightarrow> event list" where
  "new_events t t' = drop (length t) t'"

definition markStale_line :: "subscription \<Rightarrow> bool \<Rightarrow> event" where
  "markStale_line s b =
     Log Debug ''%s: Marking filter stale=%t, current sub filter stale=%t''
       [VString (logName s), VBool b, VBool (filterStale s)]"

definition uninstall_call :: "Context \<Rightarrow> subscription \<Rightarrow> rpc_call" where
  "uninstall_call ctx s =
     \<lparr>call_ctx = WithTimeout ctx 30, call_method = ''eth_uninstallFilter'',
      call_params = [VInt (filterID s)]\<rparr>"

definition poll_call :: "Context \<Rightarrow> subscription \<Rightarrow> rpc_call" where
  "poll_call ctx s =
     \<lparr>call_ctx = WithTimeout ctx 30,
      call_method = (if filteredOnce s then ''eth_getFilterChanges'' else ''eth_getFilterLogs''),
      call_params = [VInt (filterID s)]\<rparr>"

definition newFilter_call :: "Context \<Rightarrow> subscription \<Rightarrow> int \<Rightarrow> rpc_call" where
  "newFilter_call ctx s n =
     \<lparr>call_ctx = WithTimeout ctx 30, call_method = ''eth_newFilter'',
      call_params = [VFilter \<lparr>Addresses = Addresses (Filter (info s)),
                              Topics = Topics (Filter (info s)),
                              filter_FromBlock = n, filter_ToBlock = ''latest''\<rparr>]\<rparr>"

definition installed_filters :: "event list \<Rightarrow> ethFilter list" where
  "installed_filters t =
     concat (map (\<lambda>c. if call_method c = ''eth_newFilter''
                       then (case call_params c of [VFilter f] \<Rightarrow> [f] | _ \<Rightarrow> [])
                       else [])
                 (rpc_calls t))"

text \<open>
  The log entries handed to \<open>processLogEntry\<close>, as index, block number and returned
  error, and the arguments of the lines logged for entries that failed, both in the order
  of the trace.
\<close>

definition handed_over :: "event list \<Rightarrow> (nat \<times> HexBigInt \<times> error option) list" where
  "handed_over t =
     concat (map (\<lambda>e. case e of ProcessLogEntry n l k r \<Rightarrow> [(k, BlockNumber l, r)] | _ \<Rightarrow> []) t)"

definition header_call :: "Context \<Rightarrow> string \<Rightarrow> rpc_call" where
  "header_call ctx blockNumber =
     \<lparr>call_ctx = WithTimeout ctx 30, call_method = ''eth_getBlockByNumber'',
      call_params = [VString blockNumber, VBool False]\<rparr>"

definition blockNumber_call :: "Context \<Rightarrow> rpc_call" where
  "blockNumber_call ctx =
     \<lparr>call_ctx = WithTimeout ctx 30, call_method = ''eth_blockNumber'', call_params = []\<rparr>"

definition failures_logged :: "event list \<Rightarrow> go_value list list" where
  "failures_logged t =
     concat (map (\<lambda>e. case e of
                         Log lvl f args \<Rightarrow>
                           if lvl = Error \<and> f = ''Failed to process event: %s'' then [args] else []
                       | _ \<Rightarrow> []) t)"

definition failure_lines :: "(nat \<times> HexBigInt \<times> error option) list \<Rightarrow> go_value list list" where
  "failure_lines hs =
     concat (map (\<lambda>h. case snd (snd h) of Some e \<Rightarrow> [[VError (Some e)]] | None \<Rightarrow> []) hs)"

section \<open>Example inputs\<close>

definition example_info :: SubscriptionInfo where
  "example_info =
     \<lparr>TimeSorted = ''2022-01-01T00:00:00Z'', ID = ''sub1'', Path = ''/subscriptions'',
      Summary = ''*:Transfer(address,address,uint256)'', Name = ''transfers'',
      Stream = ''es1'',
      Filter = \<lparr>Addresses = [], Topics = [[''ddf252ad'']]\<rparr>,
      Event = Some ''Transfer'', FromBlock = ''100''\<rparr>"

definition example_stream :: eventStream where
  "example_stream =
     \<lparr>spec = \<lparr>Timestamps = True\<rparr>,
      blockTimestampCache = \<lparr>capacity = 2, entries = [(''101'', 1650000000)]\<rparr>\<rparr>"

text \<open>A subscription with a live filter 7 that was polled once, and a high-water-mark of 105.\<close>

definition example_sub :: subscription where
  "example_sub =
     \<lparr>info = example_info,
      lp = \<lparr>subID = ''sub1'', event = Some \<lparr>event_Name = ''Transfer'', event_ID = ''ddf252ad''\<rparr>,
            stream = example_stream, lp_blockHWM = 105\<rparr>,
      logName = ''sub1:Transfer(address,address,uint256)'',
      filterID = 7, filteredOnce = True, filterStale = False,
      deleting = False, resetRequested = False\<rparr>"

text \<open>
  Three nodes: one that answers every call, one that has forgotten the filter, one that
  cannot be reached.
\<close>

definition node_up :: rpc_client where
  "node_up =
     \<lparr>call_HexBigInt = (\<lambda>t c. if call_method c = ''eth_blockNumber'' then Inr 120 else Inr 9),
      call_logs = (\<lambda>t c. Inr [\<lparr>BlockNumber = 101, Timestamp = 0\<rparr>,
                                \<lparr>BlockNumber = 103, Timestamp = 0\<rparr>]),
      call_bool = (\<lambda>t c. Inr True),
      call_Header = (\<lambda>t c. Inr \<lparr>Time = 1650000030\<rparr>)\<rparr>"

definition node_lost_filter :: rpc_client where
  "node_lost_filter =
     \<lparr>call_HexBigInt = (\<lambda>t c. if call_method c = ''eth_blockNumber'' then Inr 120 else Inr 9),
      call_logs = (\<lambda>t c. Inl ''filter not found''),
      call_bool = (\<lambda>t c. Inl ''filter not found''),
      call_Header = (\<lambda>t c. Inr \<lparr>Time = 1650000030\<rparr>)\<rparr>"

definition node_down :: rpc_client where
  "node_down =
     \<lparr>call_HexBigInt = (\<lambda>t c. Inl ''connection refused''),
      call_logs = (\<lambda>t c. Inl ''connection refused''),
      call_bool = (\<lambda>t c. Inl ''connection refused''),
      call_Header = (\<lambda>t c. Inl ''connection refused'')\<rparr>"

text \<open>
  Rendering a block number in decimal, and a \<open>processLogEntry\<close> that fails on the
  entry of index 0 and accepts every other entry, moving the high-water-mark to its block.
\<close>

definition decimal :: "HexBigInt \<Rightarrow> string" where
  "decimal n = (if n < 0 then CHR ''-'' # FormatInt (nat (- n)) else FormatInt (nat n))"

definition ple_first_fails :: processLogEntry_fn where
  "ple_first_fails p name l idx =
     (if idx = 0 then (Some (Raw ''cannot decode event''), p)
      else (None, p\<lparr>lp_blockHWM := BlockNumber l\<rparr>))"

text \<open>
  A subscription as it is right after its creation: nothing installed, the
  high-water-mark at the zero value, the starting block \<open>100\<close> in its info.
\<close>

definition fresh_sub :: subscription where
  "fresh_sub =
     \<lparr>info = example_info,
      lp = newLogProcessor ''sub1'' (Some \<lparr>event_Name = ''Transfer'', event_ID = ''ddf252ad''\<rparr>)
             example_stream,
      logName = ''sub1:Transfer(address,address,uint256)'',
      filterID = 0, filteredOnce = False, filterStale = True,
      deleting = False, resetRequested = False\<rparr>"


definition example_cursor :: cursor where
  "example_cursor = \<lparr>items = [(''sub1'', ''105''), (''sub2'', ''90'')], pos = 0, released = False\<rparr>"

text \<open>
  A semantic-version library for running the server: versions are triples, the only
  constraint it knows is \<open>1.0.x\<close>, met by the versions with major 1 and minor 0. The
  ten handlers of the example all echo the payload and leave a line in the trace.
\<close>

definition example_semver :: "(nat \<times> nat \<times> nat, string) semver" where
  "example_semver =
     \<lparr>NewVersion = (\<lambda>v. if v = ''1.0.3'' then Inr (1, 0, 3)
                         else if v = ''1.1.0'' then Inr (1, 1, 0)
                         else Inl ''Invalid Semantic Version''),
      NewConstraint = (\<lambda>c. if c = ''1.0.x'' then Inr c
                            else Inl ''improper constraint''),
      Check = (\<lambda>c v. fst v = 1 \<and> fst (snd v) = 0)\<rparr>"

definition echo_handler :: ffcHandler where
  "echo_handler ctx payload t =
     ((Result payload, ErrorReasonOther [], None),
      t @ [Log Info ''handled %s'' [VString payload]])"

definition example_methods :: ffcMethods where
  "example_methods =
     \<lparr>createBlockListener = echo_handler, execQuery = echo_handler,
      getBlockInfoByHash = echo_handler, getBlockInfoByNumber = echo_handler,
      getGasPrice = echo_handler, getNewBlockHashes = echo_handler,
      getNextNonce = echo_handler, getReceipt = echo_handler,
      prepareTransaction = echo_handler, sendTransaction = echo_handler\<rparr>"

definition example_unmarshal :: "string \<Rightarrow> Header" where
  "example_unmarshal payload =
     (if payload = ''gas price, 1.0.3, request 1''
      then \<lparr>RequestID = Some ''request 1'', Version = ''1.0.3'',
            RequestType = RequestTypeGetGasPrice\<rparr>
      else if payload = ''gas price, 1.0.3, no request id''
      then \<lparr>RequestID = None, Version = ''1.0.3'', RequestType = RequestTypeGetGasPrice\<rparr>
      else \<lparr>RequestID = None, Version = [], RequestType = RequestTypeOther []\<rparr>)"

definition example_marshal :: "resBody \<Rightarrow> string" where
  "example_marshal b =
     (case b of NilBody \<Rightarrow> ''null'' | Result r \<Rightarrow> r | ErrorResponse e reason \<Rightarrow> ''error: '' @ e)"

definition example_render :: "error \<Rightarrow> string" where
  "example_render e =
     (case e of FFCMissingRequestID \<Rightarrow> ''Missing FFCAPI request id'' | _ \<Rightarrow> ''FFCAPI request failed'')"

section \<open>Properties\<close>

lemma rpc_calls_append: "rpc_calls (xs @ ys) = rpc_calls xs @ rpc_calls ys"
  by (simp add: rpc_calls_def)

lemma uninstall_calls_append:
  "uninstall_calls (xs @ ys) = uninstall_calls xs @ uninstall_calls ys"
  by (simp add: uninstall_calls_def rpc_calls_append)

lemma new_events_append: "new_events t (t @ es) = es"
  by (simp add: new_events_def)

lemma markFilterStale_state: "snd (markFilterStale rpc ctx b t s) = s\<lparr>filterStale := b\<rparr>"
  by (simp add: markFilterStale_def Let_def)

lemma markFilterStale_quiet:
  "filterStale s \<or> \<not> b \<Longrightarrow> fst (markFilterStale rpc ctx b t s) = t @ [markStale_line s b]"
  by (auto simp add: markFilterStale_def markStale_line_def Let_def)

lemma markFilterStale_uninstalls:
  assumes "\<not> filterStale s"
  shows "\<exists>ok err. fst (markFilterStale rpc ctx True t s) =
           t @ [markStale_line s True, RPC (uninstall_call ctx s),
                Log Info ''%s: Uninstalled filter. ok=%t (%s)''
                  [VString (logName s), VBool ok, VError err]]
         \<and> (case call_bool rpc (t @ [markStale_line s True]) (uninstall_call ctx s) of
               Inl m \<Rightarrow> \<not> ok \<and> err = Some (Raw m)
             | Inr b \<Rightarrow> ok = b \<and> err = None)"
  using assms
  by (auto simp add: markFilterStale_def markStale_line_def uninstall_call_def Let_def
           split: sum.splits)

lemma uninstall_calls_simps:
  "uninstall_calls [] = []"
  "uninstall_calls (Log l f a # es) = uninstall_calls es"
  "uninstall_calls (ProcessLogEntry n e k r # es) = uninstall_calls es"
  "uninstall_calls (RPC c # es) =
     (if call_method c = ''eth_uninstallFilter'' then c # uninstall_calls es
      else uninstall_calls es)"
  by (simp_all add: uninstall_calls_def rpc_calls_def)

text \<open>
  Claim C4. \<open>markFilterStale\<close> has no error to return, and the subscription it leaves
  is the given one with \<open>filterStale\<close> set, whatever the node answers. Called twice in
  succession with \<open>newFilterStale = true\<close>, it issues \<open>eth_uninstallFilter\<close> at most
  once over the two calls: once, in the first call, when the filter was not stale before,
  and never in the second call. When that one uninstall call fails, the failure goes to
  the log line after the call (\<open>ok\<close> false, with the error) and nowhere else.
\<close>

theorem markFilterStale_idempotent:
  assumes first: "markFilterStale rpc ctx True t s = (t1, s1)"
      and second: "markFilterStale rpc ctx' True t1 s1 = (t2, s2)"
  shows "filterStale s1 \<and> filterStale s2 \<and> s2 = s1 \<and> s1 = s\<lparr>filterStale := True\<rparr>
         \<and> uninstall_calls (new_events t1 t2) = []
         \<and> uninstall_calls (new_events t t2) =
             (if filterStale s then [] else [uninstall_call ctx s])
         \<and> length (uninstall_calls (new_events t t2)) \<le> 1
         \<and> (\<forall>m. \<not> filterStale s
                \<and> call_bool rpc (t @ [markStale_line s True]) (uninstall_call ctx s) = Inl m
              \<longrightarrow> t1 = t @ [markStale_line s True, RPC (uninstall_call ctx s),
                           Log Info ''%s: Uninstalled filter. ok=%t (%s)''
                             [VString (logName s), VBool False, VError (Some (Raw m))]])"
proof -
  have s1: "s1 = s\<lparr>filterStale := True\<rparr>"
    using markFilterStale_state [of rpc ctx True t s] first by simp
  have s2: "s2 = s1\<lparr>filterStale := True\<rparr>"
    using markFilterStale_state [of rpc ctx' True t1 s1] second by simp
  have stale1: "filterStale s1" using s1 by simp
  have t2: "t2 = t1 @ [markStale_line s1 True]"
    using markFilterStale_quiet [of s1 True rpc ctx' t1] stale1 second by simp
  have u12: "uninstall_calls (new_events t1 t2) = []"
    by (simp add: t2 new_events_append markStale_line_def uninstall_calls_simps)
  have u1: "uninstall_calls (new_events t t1) =
              (if filterStale s then [] else [uninstall_call ctx s])"
  proof (cases "filterStale s")
    case True
    then have "t1 = t @ [markStale_line s True]"
      using markFilterStale_quiet [of s True rpc ctx t] first by simp
    then show ?thesis
      using True by (simp add: new_events_append markStale_line_def uninstall_calls_simps)
  next
    case False
    from markFilterStale_uninstalls [OF False, of rpc ctx t] first
    obtain ok err where "t1 = t @ [markStale_line s True, RPC (uninstall_call ctx s),
                Log Info ''%s: Uninstalled filter. ok=%t (%s)''
                  [VString (logName s), VBool ok, VError err]]"
      by auto
    then show ?thesis
      using False
      by (simp add: new_events_append markStale_line_def uninstall_calls_simps uninstall_call_def)
  qed
  have ex: "\<exists>es. t1 = t @ es"
    using first by (auto simp add: markFilterStale_def Let_def split: if_splits sum.splits prod.splits)
  then obtain es where es: "t1 = t @ es" by blast
  have "new_events t t2 = new_events t t1 @ new_events t1 t2"
    by (simp add: es t2 new_events_def)
  then have u: "uninstall_calls (new_events t t2) =
             (if filterStale s then [] else [uninstall_call ctx s])"
    by (simp add: uninstall_calls_append u12 u1)
  have failed: "\<forall>m. \<not> filterStale s
                \<and> call_bool rpc (t @ [markStale_line s True]) (uninstall_call ctx s) = Inl m
              \<longrightarrow> t1 = t @ [markStale_line s True, RPC (uninstall_call ctx s),
                           Log Info ''%s: Uninstalled filter. ok=%t (%s)''
                             [VString (logName s), VBool False, VError (Some (Raw m))]]"
  proof (intro allI impI)
    fix m
    assume a: "\<not> filterStale s
               \<and> call_bool rpc (t @ [markStale_line s True]) (uninstall_call ctx s) = Inl m"
    then have fresh: "\<not> filterStale s" by simp
    from markFilterStale_uninstalls [OF fresh, of rpc ctx t] first a
    show "t1 = t @ [markStale_line s True, RPC (uninstall_call ctx s),
                    Log Info ''%s: Uninstalled filter. ok=%t (%s)''
                      [VString (logName s), VBool False, VError (Some (Raw m))]]"
      by auto
  qed
  show ?thesis
    using s1 s2 stale1 u12 u failed by simp
qed

theorem markFilterStale_idempotent_witness:
  "markFilterStale node_down Background True [] example_sub =
     ([markStale_line example_sub True, RPC (uninstall_call Background example_sub),
       Log Info ''%s: Uninstalled filter. ok=%t (%s)''
         [VString (logName example_sub), VBool False,
          VError (Some (Raw ''connection refused''))]],
      example_sub\<lparr>filterStale := True\<rparr>)
   \<and> markFilterStale node_down Background True
        [markStale_line example_sub True, RPC (uninstall_call Background example_sub),
         Log Info ''%s: Uninstalled filter. ok=%t (%s)''
           [VString (logName example_sub), VBool False,
            VError (Some (Raw ''connection refused''))]]
        (example_sub\<lparr>filterStale := True\<rparr>) =
     ([markStale_line example_sub True, RPC (uninstall_call Background example_sub),
       Log Info ''%s: Uninstalled filter. ok=%t (%s)''
         [VString (logName example_sub), VBool False,
          VError (Some (Raw ''connection refused''))],
       markStale_line (example_sub\<lparr>filterStale := True\<rparr>) True],
      example_sub\<lparr>filterStale := True\<rparr>)
   \<and> uninstall_calls
        (new_events []
          [markStale_line example_sub True, RPC (uninstall_call Background example_sub),
           Log Info ''%s: Uninstalled filter. ok=%t (%s)''
             [VString (logName example_sub), VBool False,
              VError (Some (Raw ''connection refused''))],
           markStale_line (example_sub\<lparr>filterStale := True\<rparr>) True]) =
       [uninstall_call Background example_sub]"
proof -
  have fresh: "\<not> filterStale example_sub"
    by (simp add: example_sub_def)
  have first: "markFilterStale node_down Background True [] example_sub =
     ([markStale_line example_sub True, RPC (uninstall_call Background example_sub),
       Log Info ''%s: Uninstalled filter. ok=%t (%s)''
         [VString (logName example_sub), VBool False,
          VError (Some (Raw ''connection refused''))]],
      example_sub\<lparr>filterStale := True\<rparr>)"
    using fresh
    by (simp add: markFilterStale_def node_down_def markStale_line_def uninstall_call_def Let_def)
  have second: "markFilterStale node_down Background True
        [markStale_line example_sub True, RPC (uninstall_call Background example_sub),
         Log Info ''%s: Uninstalled filter. ok=%t (%s)''
           [VString (logName example_sub), VBool False,
            VError (Some (Raw ''connection refused''))]]
        (example_sub\<lparr>filterStale := True\<rparr>) =
     ([markStale_line example_sub True, RPC (uninstall_call Background example_sub),
       Log Info ''%s: Uninstalled filter. ok=%t (%s)''
         [VString (logName example_sub), VBool False,
          VError (Some (Raw ''connection refused''))],
       markStale_line (example_sub\<lparr>filterStale := True\<rparr>) True],
      example_sub\<lparr>filterStale := True\<rparr>)"
    by (simp add: markFilterStale_def markStale_line_def Let_def)
  from markFilterStale_idempotent [OF first second] fresh first second show ?thesis
    by simp
qed


lemma restartFilter_success:
  assumes "restartFilter rpc ctx since t s = Return (None, t', s')"
  shows "\<exists>n fid. since = Some n
           \<and> call_HexBigInt rpc t (newFilter_call ctx s n) = Inr fid
           \<and> s' = s\<lparr>filterID := fid, filteredOnce := False, filterStale := False\<rparr>
           \<and> t' = t @ [RPC (newFilter_call ctx s n),
                        markStale_line (s\<lparr>filterID := fid, filteredOnce := False\<rparr>) False,
                        Log Info ''%s: created filter from block %s: %s - %+v''
                          [VString (logName s), VInt n, VInt fid,
                           VPersistedFilter (Filter (info s))]]"
proof (cases since)
  case None
  with assms show ?thesis by (simp add: restartFilter_def)
next
  case (Some n)
  show ?thesis
  proof (cases "call_HexBigInt rpc t (newFilter_call ctx s n)")
    case (Inl m)
    with assms Some show ?thesis
      by (simp add: restartFilter_def newFilter_call_def Let_def)
  next
    case (Inr fid)
    let ?s1 = "s\<lparr>filterID := fid, filteredOnce := False\<rparr>"
    have m: "markFilterStale rpc (WithTimeout ctx 30) False (t @ [RPC (newFilter_call ctx s n)]) ?s1
             = (t @ [RPC (newFilter_call ctx s n)] @ [markStale_line ?s1 False],
                ?s1\<lparr>filterStale := False\<rparr>)"
      using markFilterStale_quiet [of ?s1 False rpc "WithTimeout ctx 30" "t @ [RPC (newFilter_call ctx s n)]"]
            markFilterStale_state [of rpc "WithTimeout ctx 30" False "t @ [RPC (newFilter_call ctx s n)]" ?s1]
      by (simp add: prod_eq_iff)
    from assms Some Inr m show ?thesis
      by (auto simp add: restartFilter_def newFilter_call_def Let_def)
  qed
qed

lemma rpc_calls_simps:
  "rpc_calls [] = []"
  "rpc_calls (Log l f a # es) = rpc_calls es"
  "rpc_calls (ProcessLogEntry n e k r # es) = rpc_calls es"
  "rpc_calls (RPC c # es) = c # rpc_calls es"
  by (simp_all add: rpc_calls_def)

text \<open>
  Claim C1. When \<open>restartFilter(ctx, since)\<close> returns no error, it has issued exactly one
  RPC call, \<open>eth_newFilter\<close> under a 30 second timeout, and the filter it installed has
  the from-block \<open>since\<close>, the to-block \<open>latest\<close> and the persisted addresses and
  topics. The starting block of the subscription info plays no part. The log processor's
  high-water-mark is not changed, so when \<open>since\<close> is the value of \<open>blockHWM\<close> the
  from-block is the high-water-mark and not below it.
\<close>

theorem restartFilter_from_block:
  assumes "restartFilter rpc ctx since t s = Return (None, t', s')"
  shows "\<exists>f. installed_filters (new_events t t') = [f]
           \<and> since = Some (filter_FromBlock f)
           \<and> filter_ToBlock f = ''latest''
           \<and> Addresses f = Addresses (Filter (info s))
           \<and> Topics f = Topics (Filter (info s))
           \<and> blockHWM s' = blockHWM s
           \<and> (since = Some (blockHWM s) \<longrightarrow>
                filter_FromBlock f = blockHWM s' \<and> \<not> filter_FromBlock f < blockHWM s')
           \<and> rpc_calls (new_events t t') =
               [\<lparr>call_ctx = WithTimeout ctx 30, call_method = ''eth_newFilter'',
                 call_params = [VFilter f]\<rparr>]"
proof -
  from restartFilter_success [OF assms] obtain n fid where
    since: "since = Some n" and
    s': "s' = s\<lparr>filterID := fid, filteredOnce := False, filterStale := False\<rparr>" and
    t': "t' = t @ [RPC (newFilter_call ctx s n),
                   markStale_line (s\<lparr>filterID := fid, filteredOnce := False\<rparr>) False,
                   Log Info ''%s: created filter from block %s: %s - %+v''
                     [VString (logName s), VInt n, VInt fid,
                      VPersistedFilter (Filter (info s))]]"
    by blast
  let ?f = "\<lparr>Addresses = Addresses (Filter (info s)), Topics = Topics (Filter (info s)),
             filter_FromBlock = n, filter_ToBlock = ''latest''\<rparr>"
  have calls: "rpc_calls (new_events t t') = [newFilter_call ctx s n]"
    by (simp add: t' new_events_append rpc_calls_simps markStale_line_def)
  have "installed_filters (new_events t t') = [?f]"
    by (simp add: installed_filters_def calls newFilter_call_def)
  moreover have "blockHWM s' = blockHWM s"
    by (simp add: s' blockHWM_def)
  ultimately show ?thesis
    using since calls by (intro exI [of _ ?f]) (simp add: newFilter_call_def)
qed

theorem restartFilter_from_block_witness:
  "restartFilter node_up Background (Some (blockHWM example_sub)) [] example_sub =
     Return (None,
       [RPC (newFilter_call Background example_sub 105),
        markStale_line (example_sub\<lparr>filterID := 9, filteredOnce := False\<rparr>) False,
        Log Info ''%s: created filter from block %s: %s - %+v''
          [VString (logName example_sub), VInt 105, VInt 9,
           VPersistedFilter (Filter (info example_sub))]],
       example_sub\<lparr>filterID := 9, filteredOnce := False, filterStale := False\<rparr>)
   \<and> blockHWM example_sub = 105
   \<and> (\<exists>f. installed_filters
              (new_events []
                 [RPC (newFilter_call Background example_sub 105),
                  markStale_line (example_sub\<lparr>filterID := 9, filteredOnce := False\<rparr>) False,
                  Log Info ''%s: created filter from block %s: %s - %+v''
                    [VString (logName example_sub), VInt 105, VInt 9,
                     VPersistedFilter (Filter (info example_sub))]]) = [f]
            \<and> filter_FromBlock f = 105 \<and> filter_ToBlock f = ''latest'')"
proof -
  have hwm: "blockHWM example_sub = 105"
    by (simp add: blockHWM_def getBlockHWM_def example_sub_def)
  have run: "restartFilter node_up Background (Some (blockHWM example_sub)) [] example_sub =
     Return (None,
       [RPC (newFilter_call Background example_sub 105),
        markStale_line (example_sub\<lparr>filterID := 9, filteredOnce := False\<rparr>) False,
        Log Info ''%s: created filter from block %s: %s - %+v''
          [VString (logName example_sub), VInt 105, VInt 9,
           VPersistedFilter (Filter (info example_sub))]],
       example_sub\<lparr>filterID := 9, filteredOnce := False, filterStale := False\<rparr>)"
    by (simp add: restartFilter_def node_up_def example_sub_def blockHWM_def getBlockHWM_def
          markFilterStale_def newFilter_call_def markStale_line_def Let_def)
  from restartFilter_from_block [OF run] hwm run show ?thesis
    by auto
qed

lemma with_cache_same: "with_cache s (cache_of s) = s"
  by (simp add: with_cache_def cache_of_def)

lemma lru_Get_miss: "fst (lru_Get c k) = None \<Longrightarrow> lru_Get c k = (None, c)"
  by (simp add: lru_Get_def split: option.splits)

lemma lru_Get_hit_again:
  "fst (lru_Get c k) = Some v \<Longrightarrow> fst (lru_Get (snd (lru_Get c k)) k) = Some v"
  by (simp add: lru_Get_def split: option.splits)

lemma lru_Get_Add: "0 < capacity c \<Longrightarrow> fst (lru_Get (lru_Add c k v) k) = Some v"
  by (cases "capacity c") (simp_all add: lru_Get_def lru_Add_def)

lemma getEventTimestamp_hit:
  assumes "fst (lru_Get (cache_of s) (str (BlockNumber l))) = Some ts"
  shows "getEventTimestamp rpc str ctx l t s =
           (l\<lparr>Timestamp := ts\<rparr>, t, with_cache s (snd (lru_Get (cache_of s) (str (BlockNumber l)))))"
  using assms
  by (cases "lru_Get (cache_of s) (str (BlockNumber l))") (simp add: getEventTimestamp_def Let_def)

lemma getEventTimestamp_fetched:
  assumes "fst (lru_Get (cache_of s) (str (BlockNumber l))) = None"
      and "call_Header rpc t (header_call ctx (str (BlockNumber l))) = Inr hdr"
  shows "getEventTimestamp rpc str ctx l t s =
           (l\<lparr>Timestamp := Time hdr\<rparr>,
            t @ [RPC (header_call ctx (str (BlockNumber l)))],
            with_cache s (lru_Add (cache_of s) (str (BlockNumber l)) (Time hdr)))"
  using assms lru_Get_miss [of "cache_of s" "str (BlockNumber l)"]
  by (simp add: getEventTimestamp_def header_call_def Let_def)

lemma getEventTimestamp_failed:
  assumes "fst (lru_Get (cache_of s) (str (BlockNumber l))) = None"
      and "call_Header rpc t (header_call ctx (str (BlockNumber l))) = Inl m"
  shows "getEventTimestamp rpc str ctx l t s =
           (l\<lparr>Timestamp := 0\<rparr>,
            t @ [RPC (header_call ctx (str (BlockNumber l))),
                 Log Error ''Unable to retrieve block[%s] timestamp: %s''
                   [VString (str (BlockNumber l)), VError (Some (Raw m))]],
            s)"
  using assms lru_Get_miss [of "cache_of s" "str (BlockNumber l)"]
  by (simp add: getEventTimestamp_def header_call_def Let_def with_cache_same)

lemma handed_over_append: "handed_over (xs @ ys) = handed_over xs @ handed_over ys"
  by (simp add: handed_over_def)

lemma failures_logged_append:
  "failures_logged (xs @ ys) = failures_logged xs @ failures_logged ys"
  by (simp add: failures_logged_def)

lemma getEventTimestamp_shape:
  "\<exists>es ts c. getEventTimestamp rpc str ctx l t s = (l\<lparr>Timestamp := ts\<rparr>, t @ es, with_cache s c)
      \<and> handed_over es = [] \<and> failures_logged es = []
      \<and> uninstall_calls es = []"
proof (cases "fst (lru_Get (cache_of s) (str (BlockNumber l)))")
  case (Some ts)
  have "getEventTimestamp rpc str ctx l t s =
          (l\<lparr>Timestamp := ts\<rparr>, t @ [], with_cache s (snd (lru_Get (cache_of s) (str (BlockNumber l)))))"
    using Some by (simp add: getEventTimestamp_hit)
  moreover have "handed_over [] = [] \<and> failures_logged [] = [] \<and> uninstall_calls [] = []"
    by (simp add: handed_over_def failures_logged_def uninstall_calls_simps)
  ultimately show ?thesis by blast
next
  case None
  show ?thesis
  proof (cases "call_Header rpc t (header_call ctx (str (BlockNumber l)))")
    case (Inl m)
    let ?es = "[RPC (header_call ctx (str (BlockNumber l))),
                 Log Error ''Unable to retrieve block[%s] timestamp: %s''
                   [VString (str (BlockNumber l)), VError (Some (Raw m))]]"
    have "getEventTimestamp rpc str ctx l t s = (l\<lparr>Timestamp := 0\<rparr>, t @ ?es, with_cache s (cache_of s))"
      using None Inl by (simp add: getEventTimestamp_failed with_cache_same)
    moreover have "handed_over ?es = [] \<and> failures_logged ?es = [] \<and> uninstall_calls ?es = []"
      by (simp add: handed_over_def failures_logged_def uninstall_calls_simps header_call_def)
    ultimately show ?thesis by blast
  next
    case (Inr hdr)
    let ?es = "[RPC (header_call ctx (str (BlockNumber l)))]"
    have "getEventTimestamp rpc str ctx l t s =
            (l\<lparr>Timestamp := Time hdr\<rparr>, t @ ?es,
             with_cache s (lru_Add (cache_of s) (str (BlockNumber l)) (Time hdr)))"
      using None Inr by (simp add: getEventTimestamp_fetched)
    moreover have "handed_over ?es = [] \<and> failures_logged ?es = [] \<and> uninstall_calls ?es = []"
      by (simp add: handed_over_def failures_logged_def uninstall_calls_simps header_call_def)
    ultimately show ?thesis by blast
  qed
qed

lemma failure_lines_append: "failure_lines (xs @ ys) = failure_lines xs @ failure_lines ys"
  by (simp add: failure_lines_def)

lemma processLogs_step:
  "\<exists>es r s1. processLogs rpc str ple idx (l # ls) t s =
        processLogs rpc str ple (Suc idx) ls (t @ es) s1
      \<and> handed_over es = [(idx, BlockNumber l, r)]
      \<and> failures_logged es = failure_lines [(idx, BlockNumber l, r)]"
proof -
  obtain l1 t1 s1 where pre:
    "(if Timestamps (spec (stream (lp s))) then getEventTimestamp rpc str Background l t s else (l, t, s))
       = (l1, t1, s1)"
    by (metis prod_cases3)
  have "\<exists>es0. t1 = t @ es0 \<and> handed_over es0 = [] \<and> failures_logged es0 = []
           \<and> BlockNumber l1 = BlockNumber l"
  proof (cases "Timestamps (spec (stream (lp s)))")
    case True
    from getEventTimestamp_shape [of rpc str Background l t s] pre True
    show ?thesis by auto
  next
    case False
    with pre have "t1 = t @ [] \<and> l1 = l" by simp
    moreover have "handed_over [] = [] \<and> failures_logged [] = []"
      by (simp add: handed_over_def failures_logged_def)
    ultimately show ?thesis by blast
  qed
  then obtain es0 where es0: "t1 = t @ es0" "handed_over es0 = []" "failures_logged es0 = []"
     "BlockNumber l1 = BlockNumber l" by blast
  obtain err lp2 where ple: "ple (lp s1) (logName s1) l1 idx = (err, lp2)"
    by (cases "ple (lp s1) (logName s1) l1 idx")
  let ?tail = "ProcessLogEntry (logName s1) l1 idx err #
                 (case err of Some e \<Rightarrow> [Log Error ''Failed to process event: %s'' [VError (Some e)]]
                  | None \<Rightarrow> [])"
  have step: "processLogs rpc str ple idx (l # ls) t s =
        processLogs rpc str ple (Suc idx) ls (t @ (es0 @ ?tail)) (s1\<lparr>lp := lp2\<rparr>)"
    using pre ple es0(1) by (cases err) (simp_all add: Let_def)
  have h: "handed_over (es0 @ ?tail) = [(idx, BlockNumber l, err)]"
    using es0 by (cases err) (simp_all add: handed_over_append, simp_all add: handed_over_def)
  have f: "failures_logged (es0 @ ?tail) = failure_lines [(idx, BlockNumber l, err)]"
    using es0 by (cases err) (simp_all add: failures_logged_append failure_lines_def,
       simp_all add: failures_logged_def)
  from step h f show ?thesis by blast
qed

lemma processLogs_trace:
  "\<exists>es. fst (processLogs rpc str ple idx ls t s) = t @ es
      \<and> map (\<lambda>h. (fst h, fst (snd h))) (handed_over es) =
          zip [idx..<idx + length ls] (map BlockNumber ls)
      \<and> failures_logged es = failure_lines (handed_over es)"
proof (induction ls arbitrary: idx t s)
  case Nil
  have "fst (processLogs rpc str ple idx [] t s) = t @ []" by simp
  moreover have "handed_over [] = [] \<and> failures_logged [] = [] \<and> failure_lines [] = []"
    by (simp add: handed_over_def failures_logged_def failure_lines_def)
  ultimately show ?case by (intro exI [of _ "[]"]) simp
next
  case (Cons l ls)
  from processLogs_step [of rpc str ple idx l ls t s]
  obtain es r s1 where
    step: "processLogs rpc str ple idx (l # ls) t s =
             processLogs rpc str ple (Suc idx) ls (t @ es) s1" and
    h: "handed_over es = [(idx, BlockNumber l, r)]" and
    f: "failures_logged es = failure_lines [(idx, BlockNumber l, r)]"
    by blast
  from Cons.IH [of "Suc idx" "t @ es" s1]
  obtain es' where
    t': "fst (processLogs rpc str ple (Suc idx) ls (t @ es) s1) = (t @ es) @ es'" and
    h': "map (\<lambda>h. (fst h, fst (snd h))) (handed_over es') =
          zip [Suc idx..<Suc idx + length ls] (map BlockNumber ls)" and
    f': "failures_logged es' = failure_lines (handed_over es')"
    by blast
  have "fst (processLogs rpc str ple idx (l # ls) t s) = t @ (es @ es')"
    using step t' by simp
  moreover have "map (\<lambda>h. (fst h, fst (snd h))) (handed_over (es @ es')) =
          zip [idx..<idx + length (l # ls)] (map BlockNumber (l # ls))"
  proof -
    have "[idx..<idx + length (l # ls)] = idx # [Suc idx..<Suc idx + length ls]"
      by (simp add: upt_conv_Cons del: upt_Suc)
    then show ?thesis
      using h h' by (simp add: handed_over_append del: upt_Suc)
  qed
  moreover have "failures_logged (es @ es') = failure_lines (handed_over (es @ es'))"
    using f f' h failure_lines_append [of "[(idx, BlockNumber l, r)]" "handed_over es'"]
    by (simp add: failures_logged_append handed_over_append)
  ultimately show ?case by blast
qed

lemma strings_Contains_sublist: "strings_Contains s sub = sublist sub s"
  by (induction s) (simp_all add: sublist_Cons_right)

lemma strings_Contains_iff: "strings_Contains s sub \<longleftrightarrow> (\<exists>p q. s = p @ sub @ q)"
  by (simp add: strings_Contains_sublist sublist_def)

lemma poll_call_not_uninstall: "uninstall_calls [RPC (poll_call ctx s)] = []"
  by (simp add: uninstall_calls_simps poll_call_def)

lemma processNewEvents_failed:
  assumes "call_logs rpc t (poll_call ctx s) = Inl m"
  shows "processNewEvents rpc str ple ctx t s =
           (Some (Raw m),
            if strings_Contains m ''filter not found''
            then markFilterStale rpc (WithTimeout ctx 30) True (t @ [RPC (poll_call ctx s)]) s
            else (t @ [RPC (poll_call ctx s)], s))"
  using assms
  by (simp add: processNewEvents_def poll_call_def Let_def split: prod.splits)

lemma processNewEvents_polled:
  assumes "call_logs rpc t (poll_call ctx s) = Inr logs"
  shows "\<exists>es s3. processNewEvents rpc str ple ctx t s =
           (None, t @ RPC (poll_call ctx s) # es, s3\<lparr>filteredOnce := True\<rparr>)
         \<and> map (\<lambda>h. (fst h, fst (snd h))) (handed_over es) =
             zip [0..<length logs] (map BlockNumber logs)
         \<and> failures_logged es = failure_lines (handed_over es)"
proof -
  let ?line = "Log Debug ''%s: received %d events (%s)''
                 [VString (logName s), VNat (length logs), VString (call_method (poll_call ctx s))]"
  let ?pre = "if length logs > 0 then [?line] else []"
  let ?t2 = "t @ RPC (poll_call ctx s) # ?pre"
  from processLogs_trace [of rpc str ple 0 logs ?t2 s]
  obtain es where
    tr: "fst (processLogs rpc str ple 0 logs ?t2 s) = ?t2 @ es" and
    h: "map (\<lambda>h. (fst h, fst (snd h))) (handed_over es) =
          zip [0..<0 + length logs] (map BlockNumber logs)" and
    f: "failures_logged es = failure_lines (handed_over es)"
    by blast
  have pre: "handed_over ?pre = [] \<and> failures_logged ?pre = []"
    by (simp add: handed_over_def failures_logged_def)
  have run: "processNewEvents rpc str ple ctx t s =
           (None, t @ RPC (poll_call ctx s) # (?pre @ es),
            (snd (processLogs rpc str ple 0 logs ?t2 s))\<lparr>filteredOnce := True\<rparr>)"
    using assms tr
    by (cases "processLogs rpc str ple 0 logs ?t2 s")
       (auto simp add: processNewEvents_def poll_call_def Let_def)
  have "map (\<lambda>h. (fst h, fst (snd h))) (handed_over (?pre @ es)) =
             zip [0..<length logs] (map BlockNumber logs)"
    using h pre by (simp add: handed_over_append)
  moreover have "failures_logged (?pre @ es) = failure_lines (handed_over (?pre @ es))"
    using f pre by (simp add: handed_over_append failures_logged_append)
  ultimately show ?thesis using run by blast
qed

text \<open>
  Claim C2. When the poll RPC of \<open>processNewEvents\<close> fails with the message \<open>m\<close>, the
  function returns that same error. \<open>markFilterStale(ctx, true)\<close> runs if and only if
  \<open>m\<close> contains \<open>filter not found\<close> (its line is in the trace exactly then): the
  subscription is then stale, and \<open>eth_uninstallFilter\<close> is attempted when the filter was
  not stale before. For every other message the subscription is returned unchanged and
  the poll is the only thing in the trace.
\<close>

theorem processNewEvents_poll_failure:
  assumes failed: "call_logs rpc t (poll_call ctx s) = Inl m"
      and run: "processNewEvents rpc str ple ctx t s = (err, t', s')"
  shows "err = Some (Raw m)
         \<and> s' = s\<lparr>filterStale := filterStale s \<or> strings_Contains m ''filter not found''\<rparr>
         \<and> (markStale_line s True \<in> set (new_events t t')
              \<longleftrightarrow> strings_Contains m ''filter not found'')
         \<and> (strings_Contains m ''filter not found'' \<longrightarrow>
              (t', s') = markFilterStale rpc (WithTimeout ctx 30) True (t @ [RPC (poll_call ctx s)]) s)
         \<and> (\<not> strings_Contains m ''filter not found'' \<longrightarrow>
              t' = t @ [RPC (poll_call ctx s)] \<and> s' = s)
         \<and> uninstall_calls (new_events t t') =
             (if strings_Contains m ''filter not found'' \<and> \<not> filterStale s
              then [uninstall_call (WithTimeout ctx 30) s] else [])
         \<and> (strings_Contains m ''filter not found'' \<longleftrightarrow> (\<exists>p q. m = p @ ''filter not found'' @ q))"
proof (cases "strings_Contains m ''filter not found''")
  case False
  from processNewEvents_failed [OF failed, of str ple] run False
  have r: "err = Some (Raw m)" "t' = t @ [RPC (poll_call ctx s)]" "s' = s"
    by simp_all
  have "markStale_line s True \<notin> set (new_events t t')"
    by (simp add: r new_events_append markStale_line_def)
  moreover have "uninstall_calls (new_events t t') = []"
    by (simp add: r new_events_append poll_call_not_uninstall)
  ultimately show ?thesis
    using r False by (simp add: strings_Contains_iff)
next
  case True
  let ?t1 = "t @ [RPC (poll_call ctx s)]"
  from processNewEvents_failed [OF failed, of str ple] run True
  have r: "err = Some (Raw m)"
          "(t', s') = markFilterStale rpc (WithTimeout ctx 30) True ?t1 s"
    by simp_all
  have s': "s' = s\<lparr>filterStale := True\<rparr>"
    using markFilterStale_state [of rpc "WithTimeout ctx 30" True ?t1 s] r(2)
    by (metis snd_conv)
  have tr: "t' = fst (markFilterStale rpc (WithTimeout ctx 30) True ?t1 s)"
    using r(2) by (metis fst_conv)
  have "\<exists>rest. new_events t t' = RPC (poll_call ctx s) # markStale_line s True # rest
          \<and> uninstall_calls rest = (if filterStale s then [] else [uninstall_call (WithTimeout ctx 30) s])"
  proof (cases "filterStale s")
    case True
    then have "t' = ?t1 @ [markStale_line s True]"
      using markFilterStale_quiet [of s True rpc "WithTimeout ctx 30" ?t1] tr by simp
    then have "new_events t t' = RPC (poll_call ctx s) # markStale_line s True # []"
      by (simp add: new_events_def)
    then show ?thesis using True by (simp add: uninstall_calls_simps)
  next
    case False
    from markFilterStale_uninstalls [OF False, of rpc "WithTimeout ctx 30" ?t1] tr
    obtain ok e where "t' = ?t1 @ [markStale_line s True, RPC (uninstall_call (WithTimeout ctx 30) s),
                Log Info ''%s: Uninstalled filter. ok=%t (%s)''
                  [VString (logName s), VBool ok, VError e]]"
      by auto
    then have "new_events t t' = RPC (poll_call ctx s) # markStale_line s True #
                 [RPC (uninstall_call (WithTimeout ctx 30) s),
                  Log Info ''%s: Uninstalled filter. ok=%t (%s)''
                    [VString (logName s), VBool ok, VError e]]"
      by (simp add: new_events_def)
    then show ?thesis
      using False by (simp add: uninstall_calls_simps uninstall_call_def)
  qed
  then obtain rest where
    ne: "new_events t t' = RPC (poll_call ctx s) # markStale_line s True # rest" and
    un: "uninstall_calls rest = (if filterStale s then [] else [uninstall_call (WithTimeout ctx 30) s])"
    by blast
  have line: "markStale_line s True \<in> set (new_events t t')"
    by (simp add: ne)
  have "uninstall_calls (new_events t t') = uninstall_calls rest"
    using uninstall_calls_append [of "[RPC (poll_call ctx s), markStale_line s True]" rest]
    by (simp add: ne uninstall_calls_simps poll_call_def markStale_line_def)
  then have calls: "uninstall_calls (new_events t t') =
             (if filterStale s then [] else [uninstall_call (WithTimeout ctx 30) s])"
    using un by simp
  show ?thesis
    using r s' line calls True strings_Contains_iff [of m "''filter not found''"]
    by simp
qed

theorem processNewEvents_poll_failure_witness:
  "call_logs node_lost_filter [] (poll_call Background example_sub) = Inl ''filter not found''
   \<and> processNewEvents node_lost_filter decimal ple_first_fails Background [] example_sub =
       (Some (Raw ''filter not found''),
        [RPC (poll_call Background example_sub),
         markStale_line example_sub True,
         RPC (uninstall_call (WithTimeout Background 30) example_sub),
         Log Info ''%s: Uninstalled filter. ok=%t (%s)''
           [VString (logName example_sub), VBool False,
            VError (Some (Raw ''filter not found''))]],
        example_sub\<lparr>filterStale := True\<rparr>)
   \<and> call_logs node_down [] (poll_call Background example_sub) = Inl ''connection refused''
   \<and> processNewEvents node_down decimal ple_first_fails Background [] example_sub =
       (Some (Raw ''connection refused''), [RPC (poll_call Background example_sub)], example_sub)"
proof -
  have fresh: "\<not> filterStale example_sub"
    by (simp add: example_sub_def)
  have lost: "call_logs node_lost_filter [] (poll_call Background example_sub) = Inl ''filter not found''"
    by (simp add: node_lost_filter_def)
  have down: "call_logs node_down [] (poll_call Background example_sub) = Inl ''connection refused''"
    by (simp add: node_down_def)
  have found: "strings_Contains ''filter not found'' ''filter not found''"
    by simp
  have other: "\<not> strings_Contains ''connection refused'' ''filter not found''"
    by simp
  obtain e1 t1 s1 where run1:
    "processNewEvents node_lost_filter decimal ple_first_fails Background [] example_sub = (e1, t1, s1)"
    by (metis prod_cases3)
  obtain e2 t2 s2 where run2:
    "processNewEvents node_down decimal ple_first_fails Background [] example_sub = (e2, t2, s2)"
    by (metis prod_cases3)
  have m: "markFilterStale node_lost_filter (WithTimeout Background 30) True
             ([] @ [RPC (poll_call Background example_sub)]) example_sub =
           ([RPC (poll_call Background example_sub),
         markStale_line example_sub True,
         RPC (uninstall_call (WithTimeout Background 30) example_sub),
         Log Info ''%s: Uninstalled filter. ok=%t (%s)''
           [VString (logName example_sub), VBool False,
            VError (Some (Raw ''filter not found''))]], example_sub\<lparr>filterStale := True\<rparr>)"
    using fresh
    by (simp add: markFilterStale_def node_lost_filter_def markStale_line_def uninstall_call_def Let_def)
  from processNewEvents_poll_failure [OF lost run1] found m
  have r1: "(e1, t1, s1) = (Some (Raw ''filter not found''),
        [RPC (poll_call Background example_sub),
         markStale_line example_sub True,
         RPC (uninstall_call (WithTimeout Background 30) example_sub),
         Log Info ''%s: Uninstalled filter. ok=%t (%s)''
           [VString (logName example_sub), VBool False,
            VError (Some (Raw ''filter not found''))]],
        example_sub\<lparr>filterStale := True\<rparr>)"
    by simp
  from processNewEvents_poll_failure [OF down run2] other
  have r2: "(e2, t2, s2) = (Some (Raw ''connection refused''), [RPC (poll_call Background example_sub)], example_sub)"
    by simp
  show ?thesis
    using lost down run1 run2 r1 r2 by simp
qed

lemma processNewEvents_first_event:
  "\<exists>rest. new_events t (fst (snd (processNewEvents rpc str ple ctx t s))) =
            RPC (poll_call ctx s) # rest"
proof (cases "call_logs rpc t (poll_call ctx s)")
  case (Inl m)
  have "\<exists>rest. fst (markFilterStale rpc (WithTimeout ctx 30) True (t @ [RPC (poll_call ctx s)]) s)
          = (t @ [RPC (poll_call ctx s)]) @ rest"
    by (simp add: markFilterStale_def Let_def split: sum.splits prod.splits)
  then obtain rest where
    "fst (markFilterStale rpc (WithTimeout ctx 30) True (t @ [RPC (poll_call ctx s)]) s)
          = t @ RPC (poll_call ctx s) # rest"
    by auto
  then show ?thesis
    using processNewEvents_failed [OF Inl, of str ple]
    by (simp add: new_events_def)
next
  case (Inr logs)
  from processNewEvents_polled [OF Inr, of str ple]
  show ?thesis by (auto simp add: new_events_def)
qed

text \<open>
  Claim C3. The first thing \<open>processNewEvents\<close> does is the poll RPC, on the filter
  identifier and under a 30 second timeout, with the method \<open>eth_getFilterChanges\<close> when
  \<open>filteredOnce\<close> is set and \<open>eth_getFilterLogs\<close> when it is not. When the poll RPC
  succeeds the function returns nil and \<open>filteredOnce\<close> is set afterwards. A successful
  \<open>restartFilter\<close> leaves \<open>filteredOnce\<close> unset, so the next poll calls
  \<open>eth_getFilterLogs\<close> on the new filter identifier.
\<close>

theorem poll_method_by_filteredOnce:
  "(\<exists>rest. new_events t (fst (snd (processNewEvents rpc str ple ctx t s))) =
             RPC \<lparr>call_ctx = WithTimeout ctx 30,
                  call_method = (if filteredOnce s then ''eth_getFilterChanges''
                                 else ''eth_getFilterLogs''),
                  call_params = [VInt (filterID s)]\<rparr> # rest)
   \<and> (\<forall>logs. call_logs rpc t (poll_call ctx s) = Inr logs \<longrightarrow>
         fst (processNewEvents rpc str ple ctx t s) = None
         \<and> filteredOnce (snd (snd (processNewEvents rpc str ple ctx t s))))
   \<and> (\<forall>t' s'. restartFilter rpc ctx since t s = Return (None, t', s') \<longrightarrow>
         \<not> filteredOnce s'
         \<and> (\<exists>rest. new_events t' (fst (snd (processNewEvents rpc str ple ctx' t' s'))) =
                     RPC \<lparr>call_ctx = WithTimeout ctx' 30,
                          call_method = ''eth_getFilterLogs'',
                          call_params = [VInt (filterID s')]\<rparr> # rest))"
proof (intro conjI allI impI)
  show "\<exists>rest. new_events t (fst (snd (processNewEvents rpc str ple ctx t s))) =
             RPC \<lparr>call_ctx = WithTimeout ctx 30,
                  call_method = (if filteredOnce s then ''eth_getFilterChanges''
                                 else ''eth_getFilterLogs''),
                  call_params = [VInt (filterID s)]\<rparr> # rest"
    using processNewEvents_first_event [of t rpc str ple ctx s]
    by (simp add: poll_call_def)
next
  fix logs
  assume ok: "call_logs rpc t (poll_call ctx s) = Inr logs"
  from processNewEvents_polled [OF ok, of str ple]
  show "fst (processNewEvents rpc str ple ctx t s) = None" by auto
  from processNewEvents_polled [OF ok, of str ple]
  show "filteredOnce (snd (snd (processNewEvents rpc str ple ctx t s)))" by auto
next
  fix t' s'
  assume ok: "restartFilter rpc ctx since t s = Return (None, t', s')"
  from restartFilter_success [OF ok]
  show fresh: "\<not> filteredOnce s'" by auto
  from processNewEvents_first_event [of t' rpc str ple ctx' s'] fresh
  show "\<exists>rest. new_events t' (fst (snd (processNewEvents rpc str ple ctx' t' s'))) =
                     RPC \<lparr>call_ctx = WithTimeout ctx' 30,
                          call_method = ''eth_getFilterLogs'',
                          call_params = [VInt (filterID s')]\<rparr> # rest"
    by (simp add: poll_call_def)
qed




lemma budget_WithTimeout: "\<exists>b. budget (WithTimeout ctx d) = Some b \<and> b \<le> d"
  by (cases "budget ctx") simp_all

lemma stream_cache_with_cache: "blockTimestampCache (stream (lp (with_cache s c))) = c"
  by (simp add: with_cache_def)

lemma with_cache_update:
  "with_cache s c = s\<lparr>lp := (lp s)\<lparr>stream := (stream (lp s))\<lparr>blockTimestampCache := c\<rparr>\<rparr>\<rparr>"
  by (simp add: with_cache_def)

text \<open>
  Claim C6. In \<open>getEventTimestamp\<close>, with \<open>k\<close> the block number of the entry as a
  string and \<open>c\<close> the stream's timestamp cache before the call: when \<open>c\<close> holds \<open>k\<close>,
  the entry gets the cached timestamp, the trace is unchanged (no RPC call) and the cache
  of the returned subscription still holds it; when \<open>c\<close> does not hold \<open>k\<close> and the
  block header RPC succeeds, the entry gets the header's time, the one RPC call is in the
  trace and the cache of the returned subscription is \<open>c\<close> with the time added under
  \<open>k\<close>, where a lookup finds it; when the RPC fails, the entry's timestamp is zero,
  the failure is logged, the function returns, the subscription is unchanged and its
  cache is still \<open>c\<close>, without \<open>k\<close>. Nothing but the cache changes in the
  subscription. The RPC call is made under a timeout of 30 seconds derived inside the
  function.
\<close>

theorem getEventTimestamp_cache:
  assumes k: "k = str (BlockNumber l)"
      and c: "c = blockTimestampCache (stream (lp s))"
      and run: "getEventTimestamp rpc str ctx l t s = (l', t', s')"
  shows "(\<forall>ts. fst (lru_Get c k) = Some ts \<longrightarrow>
            l' = l\<lparr>Timestamp := ts\<rparr> \<and> t' = t
            \<and> s' = s\<lparr>lp := (lp s)\<lparr>stream := (stream (lp s))
                                     \<lparr>blockTimestampCache := snd (lru_Get c k)\<rparr>\<rparr>\<rparr>
            \<and> blockTimestampCache (stream (lp s')) = snd (lru_Get c k)
            \<and> fst (lru_Get (blockTimestampCache (stream (lp s'))) k) = Some ts)
         \<and> (\<forall>hdr. fst (lru_Get c k) = None
                  \<and> call_Header rpc t (header_call ctx k) = Inr hdr \<longrightarrow>
            l' = l\<lparr>Timestamp := Time hdr\<rparr> \<and> t' = t @ [RPC (header_call ctx k)]
            \<and> s' = s\<lparr>lp := (lp s)\<lparr>stream := (stream (lp s))
                                     \<lparr>blockTimestampCache := lru_Add c k (Time hdr)\<rparr>\<rparr>\<rparr>
            \<and> blockTimestampCache (stream (lp s')) = lru_Add c k (Time hdr)
            \<and> (0 < capacity c \<longrightarrow>
                 fst (lru_Get (blockTimestampCache (stream (lp s'))) k) = Some (Time hdr)))
         \<and> (\<forall>m. fst (lru_Get c k) = None
                \<and> call_Header rpc t (header_call ctx k) = Inl m \<longrightarrow>
            l' = l\<lparr>Timestamp := 0\<rparr>
            \<and> t' = t @ [RPC (header_call ctx k),
                         Log Error ''Unable to retrieve block[%s] timestamp: %s''
                           [VString k, VError (Some (Raw m))]]
            \<and> s' = s
            \<and> blockTimestampCache (stream (lp s')) = c
            \<and> fst (lru_Get (blockTimestampCache (stream (lp s'))) k) = None)
         \<and> header_call ctx k =
             \<lparr>call_ctx = WithTimeout ctx 30, call_method = ''eth_getBlockByNumber'',
              call_params = [VString k, VBool False]\<rparr>
         \<and> (\<exists>b. budget (call_ctx (header_call ctx k)) = Some b \<and> b \<le> 30)"
proof (intro conjI allI impI)
  have cc: "cache_of s = c" by (simp add: c cache_of_def)
  {
    fix ts
    assume hit: "fst (lru_Get c k) = Some ts"
    then have "fst (lru_Get (cache_of s) (str (BlockNumber l))) = Some ts"
      by (simp add: cc k)
    then have r: "(l', t', s') = (l\<lparr>Timestamp := ts\<rparr>, t, with_cache s (snd (lru_Get c k)))"
      using run by (simp add: getEventTimestamp_hit cc k)
    from r show "l' = l\<lparr>Timestamp := ts\<rparr>" "t' = t" by simp_all
    from r show "s' = s\<lparr>lp := (lp s)\<lparr>stream := (stream (lp s))
                                     \<lparr>blockTimestampCache := snd (lru_Get c k)\<rparr>\<rparr>\<rparr>"
      by (simp add: with_cache_update)
    from r show cache': "blockTimestampCache (stream (lp s')) = snd (lru_Get c k)"
      by (simp add: stream_cache_with_cache)
    show "fst (lru_Get (blockTimestampCache (stream (lp s'))) k) = Some ts"
      using hit by (simp only: cache') (rule lru_Get_hit_again)
  }
  {
    fix hdr
    assume a: "fst (lru_Get c k) = None \<and> call_Header rpc t (header_call ctx k) = Inr hdr"
    then have "fst (lru_Get (cache_of s) (str (BlockNumber l))) = None"
          and "call_Header rpc t (header_call ctx (str (BlockNumber l))) = Inr hdr"
      by (simp_all add: cc k)
    then have r: "(l', t', s') = (l\<lparr>Timestamp := Time hdr\<rparr>, t @ [RPC (header_call ctx k)],
                    with_cache s (lru_Add c k (Time hdr)))"
      using run by (simp add: getEventTimestamp_fetched cc k)
    from r show "l' = l\<lparr>Timestamp := Time hdr\<rparr>" "t' = t @ [RPC (header_call ctx k)]"
      by simp_all
    from r show "s' = s\<lparr>lp := (lp s)\<lparr>stream := (stream (lp s))
                                     \<lparr>blockTimestampCache := lru_Add c k (Time hdr)\<rparr>\<rparr>\<rparr>"
      by (simp add: with_cache_update)
    from r show cache': "blockTimestampCache (stream (lp s')) = lru_Add c k (Time hdr)"
      by (simp add: stream_cache_with_cache)
    assume "0 < capacity c"
    then show "fst (lru_Get (blockTimestampCache (stream (lp s'))) k) = Some (Time hdr)"
      by (simp only: cache') (rule lru_Get_Add)
  }
  {
    fix m
    assume a: "fst (lru_Get c k) = None \<and> call_Header rpc t (header_call ctx k) = Inl m"
    then have "fst (lru_Get (cache_of s) (str (BlockNumber l))) = None"
          and "call_Header rpc t (header_call ctx (str (BlockNumber l))) = Inl m"
      by (simp_all add: cc k)
    then have r: "(l', t', s') = (l\<lparr>Timestamp := 0\<rparr>,
                    t @ [RPC (header_call ctx k),
                         Log Error ''Unable to retrieve block[%s] timestamp: %s''
                           [VString k, VError (Some (Raw m))]], s)"
      using run by (simp add: getEventTimestamp_failed cc k)
    from r show "l' = l\<lparr>Timestamp := 0\<rparr>"
      "t' = t @ [RPC (header_call ctx k),
                         Log Error ''Unable to retrieve block[%s] timestamp: %s''
                           [VString k, VError (Some (Raw m))]]"
      "s' = s"
      by simp_all
    then show "blockTimestampCache (stream (lp s')) = c" by (simp add: c)
    then show "fst (lru_Get (blockTimestampCache (stream (lp s'))) k) = None"
      using a by simp
  }
  show "header_call ctx k =
             \<lparr>call_ctx = WithTimeout ctx 30, call_method = ''eth_getBlockByNumber'',
              call_params = [VString k, VBool False]\<rparr>"
    by (simp add: header_call_def)
  show "\<exists>b. budget (call_ctx (header_call ctx k)) = Some b \<and> b \<le> 30"
    using budget_WithTimeout [of ctx 30] by (simp add: header_call_def)
qed

theorem getEventTimestamp_cache_witness:
  "getEventTimestamp node_down decimal Background \<lparr>BlockNumber = 101, Timestamp = 0\<rparr> []
     example_sub =
     (\<lparr>BlockNumber = 101, Timestamp = 1650000000\<rparr>, [], example_sub)
   \<and> fst (lru_Get (blockTimestampCache (stream (lp example_sub))) ''101'') = Some 1650000000
   \<and> getEventTimestamp node_up decimal Background \<lparr>BlockNumber = 103, Timestamp = 0\<rparr> []
       example_sub =
       (\<lparr>BlockNumber = 103, Timestamp = 1650000030\<rparr>,
        [RPC \<lparr>call_ctx = WithTimeout Background 30, call_method = ''eth_getBlockByNumber'',
              call_params = [VString ''103'', VBool False]\<rparr>],
        example_sub\<lparr>lp := (lp example_sub)\<lparr>stream := (stream (lp example_sub))
          \<lparr>blockTimestampCache :=
             \<lparr>capacity = 2, entries = [(''103'', 1650000030), (''101'', 1650000000)]\<rparr>\<rparr>\<rparr>\<rparr>)
   \<and> fst (lru_Get (blockTimestampCache (stream (lp example_sub))) ''103'') = None
   \<and> fst (lru_Get \<lparr>capacity = 2, entries = [(''103'', 1650000030), (''101'', 1650000000)]\<rparr>
             ''103'') = Some 1650000030
   \<and> getEventTimestamp node_down decimal Background \<lparr>BlockNumber = 103, Timestamp = 7\<rparr> []
       example_sub =
       (\<lparr>BlockNumber = 103, Timestamp = 0\<rparr>,
        [RPC \<lparr>call_ctx = WithTimeout Background 30, call_method = ''eth_getBlockByNumber'',
              call_params = [VString ''103'', VBool False]\<rparr>,
         Log Error ''Unable to retrieve block[%s] timestamp: %s''
           [VString ''103'', VError (Some (Raw ''connection refused''))]],
        example_sub)"
proof -
  let ?c = "\<lparr>capacity = 2, entries = [(''101'', 1650000000 :: 64 word)]\<rparr>"
  let ?c2 = "\<lparr>capacity = 2, entries = [(''103'', 1650000030 :: 64 word), (''101'', 1650000000)]\<rparr>"
  let ?s2 = "example_sub\<lparr>lp := (lp example_sub)\<lparr>stream := (stream (lp example_sub))
               \<lparr>blockTimestampCache := ?c2\<rparr>\<rparr>\<rparr>"
  let ?call = "\<lparr>call_ctx = WithTimeout Background 30, call_method = ''eth_getBlockByNumber'',
                call_params = [VString ''103'', VBool False]\<rparr>"
  have k101: "''101'' = decimal (BlockNumber \<lparr>BlockNumber = 101, Timestamp = 0\<rparr>)"
    by code_simp
  have k103: "''103'' = decimal (BlockNumber \<lparr>BlockNumber = 103, Timestamp = 0\<rparr>)"
    by code_simp
  have k103': "''103'' = decimal (BlockNumber \<lparr>BlockNumber = 103, Timestamp = 7\<rparr>)"
    by code_simp
  have c: "?c = blockTimestampCache (stream (lp example_sub))"
    by (simp add: example_sub_def example_stream_def)
  have hit: "fst (lru_Get ?c ''101'') = Some 1650000000"
    by (simp add: lru_Get_def)
  have miss: "fst (lru_Get ?c ''103'') = None"
    by (simp add: lru_Get_def)
  have room: "0 < capacity ?c"
    by simp
  have up: "call_Header node_up [] (header_call Background ''103'') = Inr \<lparr>Time = 1650000030\<rparr>"
    by (simp add: node_up_def)
  have down: "call_Header node_down [] (header_call Background ''103'') = Inl ''connection refused''"
    by (simp add: node_down_def)
  have run1: "getEventTimestamp node_down decimal Background \<lparr>BlockNumber = 101, Timestamp = 0\<rparr> []
     example_sub = (\<lparr>BlockNumber = 101, Timestamp = 1650000000\<rparr>, [], example_sub)"
    by code_simp
  have run2: "getEventTimestamp node_up decimal Background \<lparr>BlockNumber = 103, Timestamp = 0\<rparr> []
       example_sub = (\<lparr>BlockNumber = 103, Timestamp = 1650000030\<rparr>, [RPC ?call], ?s2)"
    by code_simp
  have run3: "getEventTimestamp node_down decimal Background \<lparr>BlockNumber = 103, Timestamp = 7\<rparr> []
       example_sub =
       (\<lparr>BlockNumber = 103, Timestamp = 0\<rparr>,
        [RPC ?call,
         Log Error ''Unable to retrieve block[%s] timestamp: %s''
           [VString ''103'', VError (Some (Raw ''connection refused''))]],
        example_sub)"
    by code_simp
  note on_hit = getEventTimestamp_cache [OF k101 c run1, THEN conjunct1, rule_format]
  note on_fetch = getEventTimestamp_cache [OF k103 c run2, THEN conjunct2, THEN conjunct1,
                    rule_format]
  note on_fail = getEventTimestamp_cache [OF k103' c run3, THEN conjunct2, THEN conjunct2,
                    THEN conjunct1, rule_format]
  have r1: "fst (lru_Get (blockTimestampCache (stream (lp example_sub))) ''101'') = Some 1650000000"
    by (rule on_hit [OF hit, THEN conjunct2, THEN conjunct2, THEN conjunct2, THEN conjunct2])
  have r2: "fst (lru_Get (blockTimestampCache (stream (lp ?s2))) ''103'') = Some 1650000030"
    using on_fetch [OF conjI [OF miss up], THEN conjunct2, THEN conjunct2, THEN conjunct2,
            THEN conjunct2, THEN mp, OF room]
    by simp
  have r3: "fst (lru_Get (blockTimestampCache (stream (lp example_sub))) ''103'') = None"
    by (rule on_fail [OF conjI [OF miss down], THEN conjunct2, THEN conjunct2, THEN conjunct2,
            THEN conjunct2])
  from r2 have r2': "fst (lru_Get ?c2 ''103'') = Some 1650000030"
    by simp
  show ?thesis
    using run1 run2 run3 r1 r2' r3 by simp
qed

theorem poll_method_by_filteredOnce_witness:
  "call_logs node_up [] (poll_call Background example_sub) =
     Inr [\<lparr>BlockNumber = 101, Timestamp = 0\<rparr>, \<lparr>BlockNumber = 103, Timestamp = 0\<rparr>]
   \<and> filteredOnce example_sub
   \<and> (\<exists>rest. new_events []
                (fst (snd (processNewEvents node_up decimal ple_first_fails Background []
                             example_sub))) =
              RPC \<lparr>call_ctx = WithTimeout Background 30, call_method = ''eth_getFilterChanges'',
                   call_params = [VInt 7]\<rparr> # rest)
   \<and> fst (processNewEvents node_up decimal ple_first_fails Background [] example_sub) = None
   \<and> filteredOnce (snd (snd (processNewEvents node_up decimal ple_first_fails Background []
                                example_sub)))
   \<and> restartFilter node_up Background (Some 105) [] example_sub =
       Return (None,
         [RPC (newFilter_call Background example_sub 105),
          markStale_line (example_sub\<lparr>filterID := 9, filteredOnce := False\<rparr>) False,
          Log Info ''%s: created filter from block %s: %s - %+v''
            [VString (logName example_sub), VInt 105, VInt 9,
             VPersistedFilter (Filter (info example_sub))]],
         example_sub\<lparr>filterID := 9, filteredOnce := False, filterStale := False\<rparr>)
   \<and> (\<exists>rest. new_events
                [RPC (newFilter_call Background example_sub 105),
                 markStale_line (example_sub\<lparr>filterID := 9, filteredOnce := False\<rparr>) False,
                 Log Info ''%s: created filter from block %s: %s - %+v''
                   [VString (logName example_sub), VInt 105, VInt 9,
                    VPersistedFilter (Filter (info example_sub))]]
                (fst (snd (processNewEvents node_up decimal ple_first_fails Background
                   [RPC (newFilter_call Background example_sub 105),
                    markStale_line (example_sub\<lparr>filterID := 9, filteredOnce := False\<rparr>) False,
                    Log Info ''%s: created filter from block %s: %s - %+v''
                      [VString (logName example_sub), VInt 105, VInt 9,
                       VPersistedFilter (Filter (info example_sub))]]
                   (example_sub\<lparr>filterID := 9, filteredOnce := False, filterStale := False\<rparr>)))) =
              RPC \<lparr>call_ctx = WithTimeout Background 30, call_method = ''eth_getFilterLogs'',
                   call_params = [VInt 9]\<rparr> # rest)"
proof -
  have polled: "call_logs node_up [] (poll_call Background example_sub) =
     Inr [\<lparr>BlockNumber = 101, Timestamp = 0\<rparr>, \<lparr>BlockNumber = 103, Timestamp = 0\<rparr>]"
    by (simp add: node_up_def)
  have once: "filteredOnce example_sub" and fid: "filterID example_sub = 7"
    by (simp_all add: example_sub_def)
  have restart: "restartFilter node_up Background (Some 105) [] example_sub =
       Return (None,
         [RPC (newFilter_call Background example_sub 105),
          markStale_line (example_sub\<lparr>filterID := 9, filteredOnce := False\<rparr>) False,
          Log Info ''%s: created filter from block %s: %s - %+v''
            [VString (logName example_sub), VInt 105, VInt 9,
             VPersistedFilter (Filter (info example_sub))]],
         example_sub\<lparr>filterID := 9, filteredOnce := False, filterStale := False\<rparr>)"
    by (simp add: restartFilter_def node_up_def example_sub_def
          markFilterStale_def newFilter_call_def markStale_line_def Let_def)
  from poll_method_by_filteredOnce
         [where t = "[]" and rpc = node_up and str = decimal and ple = ple_first_fails
            and ctx = Background and s = example_sub and since = "Some 105"
            and ctx' = Background]
       polled once fid restart
  show ?thesis by simp
qed


text \<open>
  Claim C5, as stated, fails: a subscription with the starting block \<open>100\<close> and a
  high-water-mark of zero still has the high-water-mark zero after
  \<open>setInitialBlockHeight\<close>, which returned 100.
\<close>

theorem setInitialBlockHeight_explicit_counterexample:
  "\<not> (FromBlock (info fresh_sub) \<noteq> []
       \<and> FromBlock (info fresh_sub) \<noteq> ''latest''
       \<and> bigInt_SetString10 (FromBlock (info fresh_sub)) = Some 100
      \<longrightarrow> blockHWM (snd (snd (setInitialBlockHeight node_up Background [] fresh_sub))) = 100)"
  by code_simp

text \<open>
  Claim C5, amended. When the starting block of the subscription info is neither empty
  nor \<open>latest\<close>, \<open>setInitialBlockHeight\<close> parses it as a decimal big integer and
  returns the value, with no RPC call and with the subscription, its high-water-mark
  included, as it was; when the string does not parse it returns the bad-block error,
  again with nothing changed. Otherwise it calls \<open>eth_blockNumber\<close> under a 30 second
  timeout: on success it seeds the high-water-mark with the block height and returns it,
  on failure it returns an error and leaves the subscription unchanged.
\<close>

theorem setInitialBlockHeight_seeding:
  "(\<forall>i. FromBlock (info s) \<noteq> [] \<and> FromBlock (info s) \<noteq> ''latest''
          \<and> bigInt_SetString10 (FromBlock (info s)) = Some i \<longrightarrow>
        setInitialBlockHeight rpc ctx t s = (Inr i, t, s))
   \<and> (FromBlock (info s) \<noteq> [] \<and> FromBlock (info s) \<noteq> ''latest''
          \<and> bigInt_SetString10 (FromBlock (info s)) = None \<longrightarrow>
        setInitialBlockHeight rpc ctx t s = (Inl EventStreamsSubscribeBadBlock, t, s))
   \<and> (\<forall>i. (FromBlock (info s) = [] \<or> FromBlock (info s) = ''latest'')
          \<and> call_HexBigInt rpc t (blockNumber_call ctx) = Inr i \<longrightarrow>
        (\<exists>t' s'. setInitialBlockHeight rpc ctx t s = (Inr i, t', s')
           \<and> rpc_calls (new_events t t') = [blockNumber_call ctx]
           \<and> s' = s\<lparr>lp := initBlockHWM (lp s) i\<rparr>
           \<and> blockHWM s' = i))
   \<and> (\<forall>m. (FromBlock (info s) = [] \<or> FromBlock (info s) = ''latest'')
          \<and> call_HexBigInt rpc t (blockNumber_call ctx) = Inl m \<longrightarrow>
        setInitialBlockHeight rpc ctx t s =
          (Inl (RPCCallReturnedError ''eth_blockNumber'' (Raw m)),
           t @ [RPC (blockNumber_call ctx)], s))
   \<and> call_ctx (blockNumber_call ctx) = WithTimeout ctx 30"
proof (intro conjI allI impI)
  fix i
  assume "FromBlock (info s) \<noteq> [] \<and> FromBlock (info s) \<noteq> ''latest''
          \<and> bigInt_SetString10 (FromBlock (info s)) = Some i"
  then show "setInitialBlockHeight rpc ctx t s = (Inr i, t, s)"
    by (simp add: setInitialBlockHeight_def FromBlockLatest_def)
next
  assume "FromBlock (info s) \<noteq> [] \<and> FromBlock (info s) \<noteq> ''latest''
          \<and> bigInt_SetString10 (FromBlock (info s)) = None"
  then show "setInitialBlockHeight rpc ctx t s = (Inl EventStreamsSubscribeBadBlock, t, s)"
    by (simp add: setInitialBlockHeight_def FromBlockLatest_def)
next
  fix i
  assume a: "(FromBlock (info s) = [] \<or> FromBlock (info s) = ''latest'')
          \<and> call_HexBigInt rpc t (blockNumber_call ctx) = Inr i"
  let ?t' = "t @ [RPC (blockNumber_call ctx),
                  Log Info ''%s: initial block height for event stream (latest block): %s''
                    [VString (logName s), VInt i]]"
  let ?s' = "s\<lparr>lp := initBlockHWM (lp s) i\<rparr>"
  have "setInitialBlockHeight rpc ctx t s = (Inr i, ?t', ?s')"
    using a by (auto simp add: setInitialBlockHeight_def FromBlockLatest_def blockNumber_call_def Let_def)
  moreover have "rpc_calls (new_events t ?t') = [blockNumber_call ctx]"
    by (simp add: new_events_append rpc_calls_simps)
  moreover have "blockHWM ?s' = i"
    by (simp add: blockHWM_def getBlockHWM_def initBlockHWM_def)
  ultimately show "\<exists>t' s'. setInitialBlockHeight rpc ctx t s = (Inr i, t', s')
           \<and> rpc_calls (new_events t t') = [blockNumber_call ctx]
           \<and> s' = s\<lparr>lp := initBlockHWM (lp s) i\<rparr>
           \<and> blockHWM s' = i"
    by blast
next
  fix m
  assume "(FromBlock (info s) = [] \<or> FromBlock (info s) = ''latest'')
          \<and> call_HexBigInt rpc t (blockNumber_call ctx) = Inl m"
  then show "setInitialBlockHeight rpc ctx t s =
          (Inl (RPCCallReturnedError ''eth_blockNumber'' (Raw m)),
           t @ [RPC (blockNumber_call ctx)], s)"
    by (auto simp add: setInitialBlockHeight_def FromBlockLatest_def blockNumber_call_def Let_def)
next
  show "call_ctx (blockNumber_call ctx) = WithTimeout ctx 30"
    by (simp add: blockNumber_call_def)
qed

theorem setInitialBlockHeight_seeding_witness:
  "FromBlock (info fresh_sub) \<noteq> [] \<and> FromBlock (info fresh_sub) \<noteq> ''latest''
   \<and> bigInt_SetString10 (FromBlock (info fresh_sub)) = Some 100
   \<and> setInitialBlockHeight node_up Background [] fresh_sub = (Inr 100, [], fresh_sub)
   \<and> blockHWM fresh_sub = 0
   \<and> bigInt_SetString10 (FromBlock (info (fresh_sub\<lparr>info := example_info\<lparr>FromBlock := ''0x64''\<rparr>\<rparr>)))
       = None
   \<and> setInitialBlockHeight node_up Background []
        (fresh_sub\<lparr>info := example_info\<lparr>FromBlock := ''0x64''\<rparr>\<rparr>) =
       (Inl EventStreamsSubscribeBadBlock, [],
        fresh_sub\<lparr>info := example_info\<lparr>FromBlock := ''0x64''\<rparr>\<rparr>)
   \<and> call_HexBigInt node_up [] (blockNumber_call Background) = Inr 120
   \<and> (\<exists>t' s'. setInitialBlockHeight node_up Background []
                  (fresh_sub\<lparr>info := example_info\<lparr>FromBlock := ''latest''\<rparr>\<rparr>) = (Inr 120, t', s')
          \<and> rpc_calls (new_events [] t') = [blockNumber_call Background]
          \<and> blockHWM s' = 120)
   \<and> call_HexBigInt node_down [] (blockNumber_call Background) = Inl ''connection refused''
   \<and> setInitialBlockHeight node_down Background []
        (fresh_sub\<lparr>info := example_info\<lparr>FromBlock := ''latest''\<rparr>\<rparr>) =
       (Inl (RPCCallReturnedError ''eth_blockNumber'' (Raw ''connection refused'')),
        [RPC (blockNumber_call Background)],
        fresh_sub\<lparr>info := example_info\<lparr>FromBlock := ''latest''\<rparr>\<rparr>)"
proof -
  let ?bad = "fresh_sub\<lparr>info := example_info\<lparr>FromBlock := ''0x64''\<rparr>\<rparr>"
  let ?latest = "fresh_sub\<lparr>info := example_info\<lparr>FromBlock := ''latest''\<rparr>\<rparr>"
  have explicit: "FromBlock (info fresh_sub) \<noteq> [] \<and> FromBlock (info fresh_sub) \<noteq> ''latest''
                  \<and> bigInt_SetString10 (FromBlock (info fresh_sub)) = Some 100"
    by code_simp
  have hwm: "blockHWM fresh_sub = 0"
    by code_simp
  have bad: "FromBlock (info ?bad) \<noteq> [] \<and> FromBlock (info ?bad) \<noteq> ''latest''
             \<and> bigInt_SetString10 (FromBlock (info ?bad)) = None"
    by code_simp
  have latest: "FromBlock (info ?latest) = [] \<or> FromBlock (info ?latest) = ''latest''"
    by simp
  have up: "call_HexBigInt node_up [] (blockNumber_call Background) = Inr 120"
    by (simp add: node_up_def blockNumber_call_def)
  have down: "call_HexBigInt node_down [] (blockNumber_call Background) = Inl ''connection refused''"
    by (simp add: node_down_def)
  from setInitialBlockHeight_seeding
         [where s = fresh_sub and rpc = node_up and ctx = Background and t = "[]"] explicit
  have c1: "setInitialBlockHeight node_up Background [] fresh_sub = (Inr 100, [], fresh_sub)"
    by blast
  from setInitialBlockHeight_seeding
         [where s = ?bad and rpc = node_up and ctx = Background and t = "[]"] bad
  have c2: "setInitialBlockHeight node_up Background [] ?bad =
              (Inl EventStreamsSubscribeBadBlock, [], ?bad)"
    by blast
  from setInitialBlockHeight_seeding
         [where s = ?latest and rpc = node_up and ctx = Background and t = "[]"] latest up
  have c3: "\<exists>t' s'. setInitialBlockHeight node_up Background [] ?latest = (Inr 120, t', s')
          \<and> rpc_calls (new_events [] t') = [blockNumber_call Background]
          \<and> blockHWM s' = 120"
    by blast
  from setInitialBlockHeight_seeding
         [where s = ?latest and rpc = node_down and ctx = Background and t = "[]"] latest down
  have c4: "setInitialBlockHeight node_down Background [] ?latest =
       (Inl (RPCCallReturnedError ''eth_blockNumber'' (Raw ''connection refused'')),
        [] @ [RPC (blockNumber_call Background)], ?latest)"
    by blast
  show ?thesis
    using explicit hwm bad up down c1 c2 c3 c4 by simp
qed

text \<open>
  Claim C9. \<open>Release\<close> of the legacy key iterator leaves the underlying iterator in the
  state \<open>Next\<close> leaves it in, and does not depend on the library's own release
  operation. On the example cursor it never sets the released mark, and it moves an
  unreleased cursor that has a next pair forward by one position.
\<close>

theorem levelDBKeyIterator_Release_advances:
  "levelDBKeyIterator_Release ops k = snd (levelDBKeyIterator_Next ops k)
   \<and> levelDBKeyIterator_Release (ops\<lparr>it_Release := r\<rparr>) k = levelDBKeyIterator_Release ops k
   \<and> released (underlying (levelDBKeyIterator_Release cursor_ops (LevelDBKeyIterator c)))
       = released c
   \<and> (\<not> released c \<and> pos c < length (items c) \<longrightarrow>
        levelDBKeyIterator_Release cursor_ops (LevelDBKeyIterator c) =
          LevelDBKeyIterator (c\<lparr>pos := pos c + 1\<rparr>))"
  by (simp add: levelDBKeyIterator_Release_def levelDBKeyIterator_Next_def cursor_ops_def
        split: prod.splits)

theorem levelDBKeyIterator_Release_advances_witness:
  "\<not> released example_cursor \<and> pos example_cursor < length (items example_cursor)
   \<and> levelDBKeyIterator_Release cursor_ops (LevelDBKeyIterator example_cursor) =
       LevelDBKeyIterator (example_cursor\<lparr>pos := 1\<rparr>)
   \<and> levelDBKeyIterator_Key cursor_ops
        (levelDBKeyIterator_Release cursor_ops (LevelDBKeyIterator example_cursor)) = ''sub1''
   \<and> \<not> released (underlying
          (levelDBKeyIterator_Release cursor_ops (LevelDBKeyIterator example_cursor)))"
proof -
  have h: "\<not> released example_cursor \<and> pos example_cursor < length (items example_cursor)"
    by (simp add: example_cursor_def)
  have p: "pos example_cursor = 0"
    by (simp add: example_cursor_def)
  from levelDBKeyIterator_Release_advances [where c = example_cursor and ops = cursor_ops
         and k = "LevelDBKeyIterator example_cursor"] h
  have "levelDBKeyIterator_Release cursor_ops (LevelDBKeyIterator example_cursor) =
       LevelDBKeyIterator (example_cursor\<lparr>pos := pos example_cursor + 1\<rparr>)"
    by blast
  then have r: "levelDBKeyIterator_Release cursor_ops (LevelDBKeyIterator example_cursor) =
       LevelDBKeyIterator (example_cursor\<lparr>pos := 1\<rparr>)"
    using p by simp
  have k: "levelDBKeyIterator_Key cursor_ops (LevelDBKeyIterator (example_cursor\<lparr>pos := 1\<rparr>)) = ''sub1''"
    by (simp add: levelDBKeyIterator_Key_def cursor_ops_def example_cursor_def)
  show ?thesis
    using h r k by simp
qed



lemma NewFFCServer_versionCheck:
  "NewConstraint lib ''1.0.x'' = Inr c \<Longrightarrow> versionCheck (NewFFCServer lib m) = Some c"
  by (simp add: NewFFCServer_def supportedAPIVersions_def)

lemma NewFFCServer_registered:
  "(\<exists>h. handlerMap (NewFFCServer lib m) rt = Some h) \<longleftrightarrow> (\<forall>x. rt \<noteq> RequestTypeOther x)"
  by (cases rt) (simp_all add: NewFFCServer_def)

lemma validateHeader_Return_handler:
  assumes "versionCheck s = Some c"
  shows "validateHeader lib s hdr = Return (Inr h) \<longleftrightarrow>
           (\<exists>v. NewVersion lib (Version hdr) = Inr v \<and> Check lib c v)
           \<and> RequestID hdr \<noteq> None \<and> handlerMap s (RequestType hdr) = Some h"
  using assms
  by (auto simp add: validateHeader_def split: sum.splits option.splits)

lemma validateHeader_returns:
  assumes "versionCheck s = Some c"
  shows "\<exists>r. validateHeader lib s hdr = Return r"
  using assms
  by (auto simp add: validateHeader_def split: sum.splits option.splits)

lemma ServeFFCAPI_rejected:
  assumes "validateHeader lib s (unmarshal payload) = Return (Inl e)"
  shows "ServeFFCAPI lib unmarshal marshal render s ctx payload t =
           Return (\<lparr>status = 400,
                    headers = [(''Content-Type'', ''application/json''),
                               (''Content-Length'',
                                FormatInt (length (marshal (ErrorResponse (ErrorText render e)
                                                              ErrorReasonInvalidInputs))))],
                    body = marshal (ErrorResponse (ErrorText render e) ErrorReasonInvalidInputs)\<rparr>,
                   t @ [Log Error ''Request failed: %s'' [VError (Some e)]])"
  using assms
  by (simp add: ServeFFCAPI_def mapReasonStatus_def Let_def)

text \<open>
  Claim C8. For a server built by \<open>NewFFCServer\<close>, with the library accepting the
  constraint \<open>1.0.x\<close>: \<open>validateHeader\<close> returns the handler \<open>h\<close> if and only if the
  header's version parses to a version that meets the constraint, the request identifier
  is not nil and \<open>h\<close> is registered for the request type; the registered types are the
  ten named ones; \<open>validateHeader\<close> always returns. When it returns an error,
  \<open>ServeFFCAPI\<close> answers with status 400 and the error body, and its trace holds the
  one line that reports the failure: no line of a handler call and nothing a handler did.
\<close>

theorem validateHeader_gate:
  assumes "NewConstraint lib ''1.0.x'' = Inr c"
  shows "(validateHeader lib (NewFFCServer lib m) hdr = Return (Inr h) \<longleftrightarrow>
            (\<exists>v. NewVersion lib (Version hdr) = Inr v \<and> Check lib c v)
            \<and> RequestID hdr \<noteq> None
            \<and> handlerMap (NewFFCServer lib m) (RequestType hdr) = Some h)
         \<and> ((\<exists>h'. handlerMap (NewFFCServer lib m) (RequestType hdr) = Some h') \<longleftrightarrow>
              (\<forall>x. RequestType hdr \<noteq> RequestTypeOther x))
         \<and> (\<exists>r. validateHeader lib (NewFFCServer lib m) hdr = Return r)
         \<and> (\<forall>e. validateHeader lib (NewFFCServer lib m) (unmarshal payload) = Return (Inl e) \<longrightarrow>
              ServeFFCAPI lib unmarshal marshal render (NewFFCServer lib m) ctx payload t =
                Return (\<lparr>status = 400,
                         headers = [(''Content-Type'', ''application/json''),
                                    (''Content-Length'',
                                     FormatInt (length (marshal (ErrorResponse (ErrorText render e)
                                                                   ErrorReasonInvalidInputs))))],
                         body = marshal (ErrorResponse (ErrorText render e)
                                           ErrorReasonInvalidInputs)\<rparr>,
                        t @ [Log Error ''Request failed: %s'' [VError (Some e)]]))"
proof -
  have vc: "versionCheck (NewFFCServer lib m) = Some c"
    using assms by (rule NewFFCServer_versionCheck)
  show ?thesis
    using validateHeader_Return_handler [OF vc, of lib hdr h]
          NewFFCServer_registered [of lib m "RequestType hdr"]
          validateHeader_returns [OF vc, of lib hdr]
          ServeFFCAPI_rejected [of lib "NewFFCServer lib m" unmarshal payload _ marshal render ctx t]
    by blast
qed



theorem validateHeader_gate_witness:
  "NewConstraint example_semver ''1.0.x'' = Inr ''1.0.x''
   \<and> validateHeader example_semver (NewFFCServer example_semver example_methods)
        (example_unmarshal ''gas price, 1.0.3, request 1'') = Return (Inr echo_handler)
   \<and> validateHeader example_semver (NewFFCServer example_semver example_methods)
        (example_unmarshal ''gas price, 1.0.3, no request id'') = Return (Inl FFCMissingRequestID)
   \<and> ServeFFCAPI example_semver example_unmarshal example_marshal example_render
        (NewFFCServer example_semver example_methods) Background
        ''gas price, 1.0.3, no request id'' [] =
       Return (\<lparr>status = 400,
                headers = [(''Content-Type'', ''application/json''), (''Content-Length'', ''32'')],
                body = ''error: Missing FFCAPI request id''\<rparr>,
               [Log Error ''Request failed: %s'' [VError (Some FFCMissingRequestID)]])"
proof -
  let ?s = "NewFFCServer example_semver example_methods"
  have con: "NewConstraint example_semver ''1.0.x'' = Inr ''1.0.x''"
    by (simp add: example_semver_def)
  have ver: "\<exists>v. NewVersion example_semver (Version (example_unmarshal ''gas price, 1.0.3, request 1''))
               = Inr v \<and> Check example_semver ''1.0.x'' v"
    by (simp add: example_semver_def example_unmarshal_def)
  have rid: "RequestID (example_unmarshal ''gas price, 1.0.3, request 1'') \<noteq> None"
    by (simp add: example_unmarshal_def)
  have reg: "handlerMap ?s (RequestType (example_unmarshal ''gas price, 1.0.3, request 1''))
               = Some echo_handler"
    by (simp add: NewFFCServer_def example_unmarshal_def example_methods_def)
  have rejected: "validateHeader example_semver ?s
        (example_unmarshal ''gas price, 1.0.3, no request id'') = Return (Inl FFCMissingRequestID)"
    by (simp add: validateHeader_def NewFFCServer_def supportedAPIVersions_def
          example_semver_def example_unmarshal_def)
  have len: "FormatInt (length (example_marshal
               (ErrorResponse (ErrorText example_render FFCMissingRequestID)
                  ErrorReasonInvalidInputs))) = ''32''"
    by code_simp
  have body: "example_marshal (ErrorResponse (ErrorText example_render FFCMissingRequestID)
                  ErrorReasonInvalidInputs) = ''error: Missing FFCAPI request id''"
    by (simp add: example_marshal_def example_render_def)
  from validateHeader_gate
         [OF con, where m = example_methods and h = echo_handler
            and hdr = "example_unmarshal ''gas price, 1.0.3, request 1''"
            and unmarshal = example_unmarshal and marshal = example_marshal
            and render = example_render and ctx = Background and t = "[]"
            and payload = "''gas price, 1.0.3, no request id''"]
       ver rid reg rejected
  have "validateHeader example_semver ?s
          (example_unmarshal ''gas price, 1.0.3, request 1'') = Return (Inr echo_handler)
        \<and> ServeFFCAPI example_semver example_unmarshal example_marshal example_render ?s
            Background ''gas price, 1.0.3, no request id'' [] =
           Return (\<lparr>status = 400,
                headers = [(''Content-Type'', ''application/json''),
                           (''Content-Length'',
                            FormatInt (length (example_marshal
                              (ErrorResponse (ErrorText example_render FFCMissingRequestID)
                                 ErrorReasonInvalidInputs))))],
                body = example_marshal (ErrorResponse (ErrorText example_render FFCMissingRequestID)
                                 ErrorReasonInvalidInputs)\<rparr>,
               [] @ [Log Error ''Request failed: %s'' [VError (Some FFCMissingRequestID)]])"
    by blast
  then show ?thesis
    using con rejected len body by simp
qed




end
